theory Spec2Isabelle
  imports Main "HOL-Library.Word"
begin

section \<open>Export serializer: the platform\<close>

text \<open>
  The header \<^verbatim>\<open>src/common/export_serializer.h\<close> defines two cursors over caller-owned
  memory: \<^verbatim>\<open>ExportSerializeInput\<close> (the Reader) and \<^verbatim>\<open>ExportSerializeOutput\<close> (the Writer).
  Both work on raw \<^verbatim>\<open>char*\<close> pointers with \<^verbatim>\<open>memcpy\<close>, so memory is modelled flat: a total
  map from 64-bit addresses to bytes. \<^verbatim>\<open>size_t\<close> and pointers are 64-bit words, so that
  \<^verbatim>\<open>position_ + next_write\<close> and \<^verbatim>\<open>current_ -= bytes\<close> wrap as they do on the machine.
\<close>

type_synonym byte = "8 word"
type_synonym size_t = "64 word"
type_synonym addr = "64 word"
type_synonym memory = "addr \<Rightarrow> byte"

text \<open>
  Two things the header leaves to the build: whether \<^verbatim>\<open>assert\<close> is compiled
  (\<^verbatim>\<open>NDEBUG\<close>), and the host byte order that \<^verbatim>\<open>memcpy\<close> of an integer object exposes.
\<close>

record platform =
  NDEBUG :: bool
  big_endian :: bool

text \<open>
  An operation of the header does not return in two ways: a failed \<^verbatim>\<open>assert\<close> aborts the
  process, and the \<^verbatim>\<open>std::string\<close> constructor throws \<^verbatim>\<open>std::length_error\<close>. The result
  \<open>Inl (f, s)\<close> says which, and carries the state \<open>s\<close> the operation had reached at that
  moment, so that what was written or moved before the failure is part of the result.
\<close>

datatype failure =
    Assert_position_le_capacity
  | Assert_capacity_ge_minimum_desired
  | Assert_enum_fits_int8
  | Assert_current_le_end
  | Assert_stringLength_ge_0
  | Throw_std_length_error

definition assert_that :: "platform \<Rightarrow> failure \<Rightarrow> bool \<Rightarrow> 's \<Rightarrow> failure \<times> 's + unit" where
  "assert_that cfg a cond s = (if NDEBUG cfg \<or> cond then Inr () else Inl (a, s))"

text \<open>\<open>in_memory m r\<close>: the failure of a step that knows the cursor only, seen by an operation
  whose state is the memory and the cursor.\<close>

definition in_memory :: "memory \<Rightarrow> failure \<times> 's + 'a \<Rightarrow> failure \<times> memory \<times> 's + 'a" where
  "in_memory m r = (case r of Inl (f, s) \<Rightarrow> Inl (f, (m, s)) | Inr x \<Rightarrow> Inr x)"

definition and_then :: "'e + 'a \<Rightarrow> ('a \<Rightarrow> 'e + 'b) \<Rightarrow> 'e + 'b" where
  "and_then r f = (case r of Inl e \<Rightarrow> Inl e | Inr x \<Rightarrow> f x)"

text \<open>\<open>returns r P\<close>: the call returned normally, with a result that satisfies \<open>P\<close>.\<close>

definition returns :: "'e + 'a \<Rightarrow> ('a \<Rightarrow> bool) \<Rightarrow> bool" where
  "returns r P = (case r of Inl e \<Rightarrow> False | Inr x \<Rightarrow> P x)"

subsection \<open>Memory\<close>

text \<open>\<open>load m p n\<close>: the \<open>n\<close> bytes at \<open>p\<close>, \<open>p + 1\<close>, ... (addresses wrap at \<open>2 ^ 64\<close>).\<close>

definition load :: "memory \<Rightarrow> addr \<Rightarrow> nat \<Rightarrow> byte list" where
  "load m p n = map (\<lambda>i. m (p + of_nat i)) [0..<n]"

text \<open>
  \<open>store m p bs\<close>: memory after the bytes \<open>bs\<close> were copied to \<open>p\<close>. The address \<open>x\<close> lies
  in the destination range exactly when its distance \<open>x - p\<close> is below the length.
\<close>

definition store :: "memory \<Rightarrow> addr \<Rightarrow> byte list \<Rightarrow> memory" where
  "store m p bs = (\<lambda>x. if unat (x - p) < length bs then bs ! unat (x - p) else m x)"

definition memcpy :: "memory \<Rightarrow> addr \<Rightarrow> addr \<Rightarrow> size_t \<Rightarrow> memory" where
  "memcpy m dst src n = store m dst (load m src (unat n))"

definition memset :: "memory \<Rightarrow> addr \<Rightarrow> byte \<Rightarrow> size_t \<Rightarrow> memory" where
  "memset m dst c n = store m dst (replicate (unat n) c)"

text \<open>
  \<^verbatim>\<open>std::string(pointer, count)\<close> throws \<^verbatim>\<open>std::length_error\<close>, before it copies a byte, when
  \<open>count\<close> exceeds \<^verbatim>\<open>max_size()\<close>; otherwise it copies \<open>count\<close> bytes. \<^verbatim>\<open>max_size()\<close> is the
  library's: \<open>2 ^ 63 - 1\<close> here, the largest object size of the platform. The one caller passes
  a sign-extended \<^verbatim>\<open>int32_t\<close>, below \<open>2 ^ 31\<close> or at least \<open>2 ^ 64 - 2 ^ 31\<close>, so every
  \<^verbatim>\<open>max_size()\<close> between these two gives the same results.
\<close>

definition string_max_size :: nat where
  "string_max_size = 2 ^ 63 - 1"

definition std_string :: "memory \<Rightarrow> addr \<Rightarrow> size_t \<Rightarrow> 's \<Rightarrow> failure \<times> 's + byte list" where
  "std_string m p count s =
     (if string_max_size < unat count then Inl (Throw_std_length_error, s)
      else Inr (load m p (unat count)))"

text \<open>
  \<open>disjoint_ranges p n q k\<close>: the ranges \<open>[p, p + n)\<close> and \<open>[q, q + k)\<close> share no address
  (neither start lies in the other range), which is what \<^verbatim>\<open>memcpy\<close> asks of its caller.
\<close>

definition disjoint_ranges :: "addr \<Rightarrow> nat \<Rightarrow> addr \<Rightarrow> nat \<Rightarrow> bool" where
  "disjoint_ranges p n q k = (n \<le> unat (q - p) \<and> k \<le> unat (p - q))"

definition zero_memory :: memory where
  "zero_memory = (\<lambda>x. 0)"

subsection \<open>Object representation of integers\<close>

text \<open>
  \<^verbatim>\<open>memcpy(buffer_ + position_, &value, sizeof(value))\<close> copies the bytes of the integer
  object: least significant byte first on a little-endian host, reversed on a big-endian one.
\<close>

definition sizeof :: "'a::len word \<Rightarrow> nat" where
  "sizeof v = LENGTH('a) div 8"

primrec word_bytes :: "nat \<Rightarrow> 'a::len word \<Rightarrow> byte list" where
  "word_bytes 0 v = []"
| "word_bytes (Suc n) v = ucast v # word_bytes n (drop_bit 8 v)"

primrec bytes_word :: "byte list \<Rightarrow> 'a::len word" where
  "bytes_word [] = 0"
| "bytes_word (b # bs) = ucast b + push_bit 8 (bytes_word bs)"

definition object_bytes :: "platform \<Rightarrow> 'a::len word \<Rightarrow> byte list" where
  "object_bytes cfg v =
     (let le = word_bytes (sizeof v) v in if big_endian cfg then rev le else le)"

definition object_value :: "platform \<Rightarrow> byte list \<Rightarrow> 'a::len word" where
  "object_value cfg bs = bytes_word (if big_endian cfg then rev bs else bs)"

text \<open>
  \<^verbatim>\<open>float\<close> and \<^verbatim>\<open>double\<close> values only ever pass through \<^verbatim>\<open>memcpy\<close> to and from an integer
  of the same width, so a floating-point value is carried as its IEEE-754 bit pattern.
\<close>

datatype float = Float (float_bits: "32 word")
datatype double = Double (double_bits: "64 word")

section \<open>The Reader: \<^verbatim>\<open>ExportSerializeInput\<close>\<close>

record ExportSerializeInput =
  current_m :: addr
  end_m :: addr

definition ExportSerializeInput_new :: "addr \<Rightarrow> size_t \<Rightarrow> ExportSerializeInput" where
  "ExportSerializeInput_new buf len = \<lparr>current_m = buf, end_m = buf + len\<rparr>"

text \<open>\<^verbatim>\<open>readPrimitive<T>\<close> has no check of any kind: it copies and advances.\<close>

definition readPrimitive ::
  "platform \<Rightarrow> memory \<Rightarrow> ExportSerializeInput \<Rightarrow> 'a::len word \<times> ExportSerializeInput" where
  "readPrimitive cfg m r =
     (let value = object_value cfg (load m (current_m r) (LENGTH('a) div 8))
      in (value, r\<lparr>current_m := current_m r + of_nat (LENGTH('a) div 8)\<rparr>))"

definition readChar :: "platform \<Rightarrow> memory \<Rightarrow> ExportSerializeInput \<Rightarrow> 8 word \<times> ExportSerializeInput" where
  "readChar cfg m r = readPrimitive cfg m r"

definition readByte :: "platform \<Rightarrow> memory \<Rightarrow> ExportSerializeInput \<Rightarrow> 8 word \<times> ExportSerializeInput" where
  "readByte cfg m r = readPrimitive cfg m r"

definition readShort :: "platform \<Rightarrow> memory \<Rightarrow> ExportSerializeInput \<Rightarrow> 16 word \<times> ExportSerializeInput" where
  "readShort cfg m r = readPrimitive cfg m r"

definition readInt :: "platform \<Rightarrow> memory \<Rightarrow> ExportSerializeInput \<Rightarrow> 32 word \<times> ExportSerializeInput" where
  "readInt cfg m r = readPrimitive cfg m r"

definition readBool :: "platform \<Rightarrow> memory \<Rightarrow> ExportSerializeInput \<Rightarrow> bool \<times> ExportSerializeInput" where
  "readBool cfg m r = (case readByte cfg m r of (b, r') \<Rightarrow> (b \<noteq> 0, r'))"

definition readEnumInSingleByte ::
  "platform \<Rightarrow> memory \<Rightarrow> ExportSerializeInput \<Rightarrow> 8 word \<times> ExportSerializeInput" where
  "readEnumInSingleByte cfg m r = readByte cfg m r"

definition readLong :: "platform \<Rightarrow> memory \<Rightarrow> ExportSerializeInput \<Rightarrow> 64 word \<times> ExportSerializeInput" where
  "readLong cfg m r = readPrimitive cfg m r"

definition readFloat :: "platform \<Rightarrow> memory \<Rightarrow> ExportSerializeInput \<Rightarrow> float \<times> ExportSerializeInput" where
  "readFloat cfg m r = (case readPrimitive cfg m r of (value, r') \<Rightarrow> (Float value, r'))"

definition readDouble :: "platform \<Rightarrow> memory \<Rightarrow> ExportSerializeInput \<Rightarrow> double \<times> ExportSerializeInput" where
  "readDouble cfg m r = (case readPrimitive cfg m r of (value, r') \<Rightarrow> (Double value, r'))"

text \<open>\<^verbatim>\<open>getRawPointer\<close> advances first and asserts afterwards.\<close>

definition getRawPointer ::
  "platform \<Rightarrow> size_t \<Rightarrow> ExportSerializeInput \<Rightarrow> failure \<times> ExportSerializeInput + addr \<times> ExportSerializeInput" where
  "getRawPointer cfg len r =
     (let result = current_m r;
          r' = r\<lparr>current_m := current_m r + len\<rparr>
      in and_then (assert_that cfg Assert_current_le_end (current_m r' \<le> end_m r') r')
           (\<lambda>_. Inr (result, r')))"

text \<open>
  \<^verbatim>\<open>readTextString\<close>: the \<^verbatim>\<open>int32_t\<close> length is converted to \<^verbatim>\<open>size_t\<close> (sign extension) both
  for \<^verbatim>\<open>getRawPointer\<close>, which is called first, and for the \<^verbatim>\<open>std::string(pointer, count)\<close>
  constructor.
\<close>

definition readTextString ::
  "platform \<Rightarrow> memory \<Rightarrow> ExportSerializeInput \<Rightarrow> failure \<times> ExportSerializeInput + byte list \<times> ExportSerializeInput" where
  "readTextString cfg m r =
     (case readInt cfg m r of (stringLength, r1) \<Rightarrow>
        and_then (assert_that cfg Assert_stringLength_ge_0 (0 \<le> sint stringLength) r1)
          (\<lambda>_. and_then (getRawPointer cfg (scast stringLength) r1)
             (\<lambda>(p, r2). and_then (std_string m p (scast stringLength) r2)
                (\<lambda>str. Inr (str, r2)))))"

definition readBytes ::
  "platform \<Rightarrow> addr \<Rightarrow> size_t \<Rightarrow> memory \<times> ExportSerializeInput
     \<Rightarrow> failure \<times> memory \<times> ExportSerializeInput + memory \<times> ExportSerializeInput" where
  "readBytes cfg destination len s =
     (case s of (m, r) \<Rightarrow>
        and_then (in_memory m (getRawPointer cfg len r))
          (\<lambda>(p, r'). Inr (memcpy m destination p len, r')))"

text \<open>\<^verbatim>\<open>unread\<close> subtracts; the Reader does not even keep the start of its buffer.\<close>

definition unread :: "size_t \<Rightarrow> ExportSerializeInput \<Rightarrow> ExportSerializeInput" where
  "unread bytes r = r\<lparr>current_m := current_m r - bytes\<rparr>"

section \<open>The Writer: \<^verbatim>\<open>ExportSerializeOutput\<close>\<close>

record ExportSerializeOutput =
  buffer_m :: addr
  position_m :: size_t
  capacity_m :: size_t

definition ExportSerializeOutput_new ::
  "platform \<Rightarrow> addr \<Rightarrow> size_t \<Rightarrow> failure \<times> ExportSerializeOutput + ExportSerializeOutput" where
  "ExportSerializeOutput_new cfg buffer capacity =
     (let w = \<lparr>buffer_m = buffer, position_m = 0, capacity_m = 0\<rparr>
      in and_then (assert_that cfg Assert_position_le_capacity (position_m w \<le> capacity) w)
           (\<lambda>_. Inr (w\<lparr>capacity_m := capacity\<rparr>)))"

definition data :: "ExportSerializeOutput \<Rightarrow> addr" where
  "data w = buffer_m w"

definition size_out :: "ExportSerializeOutput \<Rightarrow> size_t" where
  "size_out w = position_m w"

definition position :: "ExportSerializeOutput \<Rightarrow> size_t" where
  "position w = position_m w"

definition set_position :: "size_t \<Rightarrow> ExportSerializeOutput \<Rightarrow> ExportSerializeOutput" where
  "set_position pos w = w\<lparr>position_m := pos\<rparr>"

text \<open>
  \<^verbatim>\<open>assureExpand\<close>: the sum is a \<^verbatim>\<open>size_t\<close> sum; the \<^verbatim>\<open>if\<close> has an empty body
  (\<^verbatim>\<open>// TODO: die\<close>), so only the assertion is left. It comes before any store.
\<close>

definition assureExpand :: "platform \<Rightarrow> ExportSerializeOutput \<Rightarrow> size_t \<Rightarrow> failure \<times> ExportSerializeOutput + unit" where
  "assureExpand cfg w next_write =
     (let minimum_desired = position_m w + next_write
      in assert_that cfg Assert_capacity_ge_minimum_desired (capacity_m w \<ge> minimum_desired) w)"

definition writePrimitive ::
  "platform \<Rightarrow> 'a::len word \<Rightarrow> memory \<times> ExportSerializeOutput
     \<Rightarrow> failure \<times> memory \<times> ExportSerializeOutput + memory \<times> ExportSerializeOutput" where
  "writePrimitive cfg value s =
     (case s of (m, w) \<Rightarrow>
        and_then (in_memory m (assureExpand cfg w (of_nat (sizeof value))))
          (\<lambda>_. Inr (store m (buffer_m w + position_m w) (object_bytes cfg value),
                     w\<lparr>position_m := position_m w + of_nat (sizeof value)\<rparr>)))"

definition writeChar ::
  "platform \<Rightarrow> 8 word \<Rightarrow> memory \<times> ExportSerializeOutput \<Rightarrow> failure \<times> memory \<times> ExportSerializeOutput + memory \<times> ExportSerializeOutput" where
  "writeChar cfg value s = writePrimitive cfg value s"

definition writeByte ::
  "platform \<Rightarrow> 8 word \<Rightarrow> memory \<times> ExportSerializeOutput \<Rightarrow> failure \<times> memory \<times> ExportSerializeOutput + memory \<times> ExportSerializeOutput" where
  "writeByte cfg value s = writePrimitive cfg value s"

text \<open>\<^verbatim>\<open>static_cast<uint16_t>\<close> keeps the 16 bits.\<close>

definition writeShort ::
  "platform \<Rightarrow> 16 word \<Rightarrow> memory \<times> ExportSerializeOutput \<Rightarrow> failure \<times> memory \<times> ExportSerializeOutput + memory \<times> ExportSerializeOutput" where
  "writeShort cfg value s = writePrimitive cfg (ucast value :: 16 word) s"

definition writeInt ::
  "platform \<Rightarrow> 32 word \<Rightarrow> memory \<times> ExportSerializeOutput \<Rightarrow> failure \<times> memory \<times> ExportSerializeOutput + memory \<times> ExportSerializeOutput" where
  "writeInt cfg value s = writePrimitive cfg value s"

definition writeBool ::
  "platform \<Rightarrow> bool \<Rightarrow> memory \<times> ExportSerializeOutput \<Rightarrow> failure \<times> memory \<times> ExportSerializeOutput + memory \<times> ExportSerializeOutput" where
  "writeBool cfg value s = writeByte cfg (if value then 1 else 0) s"

definition writeLong ::
  "platform \<Rightarrow> 64 word \<Rightarrow> memory \<times> ExportSerializeOutput \<Rightarrow> failure \<times> memory \<times> ExportSerializeOutput + memory \<times> ExportSerializeOutput" where
  "writeLong cfg value s = writePrimitive cfg value s"

definition writeFloat ::
  "platform \<Rightarrow> float \<Rightarrow> memory \<times> ExportSerializeOutput \<Rightarrow> failure \<times> memory \<times> ExportSerializeOutput + memory \<times> ExportSerializeOutput" where
  "writeFloat cfg value s = writePrimitive cfg (float_bits value) s"

definition writeDouble ::
  "platform \<Rightarrow> double \<Rightarrow> memory \<times> ExportSerializeOutput \<Rightarrow> failure \<times> memory \<times> ExportSerializeOutput + memory \<times> ExportSerializeOutput" where
  "writeDouble cfg value s = writePrimitive cfg (double_bits value) s"

text \<open>The argument is a 32-bit \<^verbatim>\<open>int\<close>; \<^verbatim>\<open>static_cast<int8_t>\<close> keeps its low 8 bits.\<close>

definition writeEnumInSingleByte ::
  "platform \<Rightarrow> 32 word \<Rightarrow> memory \<times> ExportSerializeOutput \<Rightarrow> failure \<times> memory \<times> ExportSerializeOutput + memory \<times> ExportSerializeOutput" where
  "writeEnumInSingleByte cfg value s =
     and_then (assert_that cfg Assert_enum_fits_int8 (- 128 \<le> sint value \<and> sint value \<le> 127) s)
       (\<lambda>_. writeByte cfg (ucast value) s)"

text \<open>\<^verbatim>\<open>static_cast<int32_t>(len)\<close> keeps the low 32 bits of the \<^verbatim>\<open>size_t\<close>.\<close>

definition writeBinaryString ::
  "platform \<Rightarrow> addr \<Rightarrow> size_t \<Rightarrow> memory \<times> ExportSerializeOutput
     \<Rightarrow> failure \<times> memory \<times> ExportSerializeOutput + memory \<times> ExportSerializeOutput" where
  "writeBinaryString cfg value len s =
     (case s of (m, w) \<Rightarrow>
        let stringLength = (ucast len :: 32 word)
        in and_then (in_memory m (assureExpand cfg w (len + of_nat (sizeof stringLength))))
             (\<lambda>_. let current = buffer_m w + position_m w;
                       m1 = store m current (object_bytes cfg stringLength);
                       current' = current + of_nat (sizeof stringLength);
                       m2 = memcpy m1 current' value len
                   in Inr (m2, w\<lparr>position_m := position_m w + (of_nat (sizeof stringLength) + len)\<rparr>)))"

definition writeBytes ::
  "platform \<Rightarrow> addr \<Rightarrow> size_t \<Rightarrow> memory \<times> ExportSerializeOutput
     \<Rightarrow> failure \<times> memory \<times> ExportSerializeOutput + memory \<times> ExportSerializeOutput" where
  "writeBytes cfg value len s =
     (case s of (m, w) \<Rightarrow>
        and_then (in_memory m (assureExpand cfg w len))
          (\<lambda>_. Inr (memcpy m (buffer_m w + position_m w) value len,
                     w\<lparr>position_m := position_m w + len\<rparr>)))"

definition writeZeros ::
  "platform \<Rightarrow> size_t \<Rightarrow> memory \<times> ExportSerializeOutput \<Rightarrow> failure \<times> memory \<times> ExportSerializeOutput + memory \<times> ExportSerializeOutput" where
  "writeZeros cfg len s =
     (case s of (m, w) \<Rightarrow>
        and_then (in_memory m (assureExpand cfg w len))
          (\<lambda>_. Inr (memset m (buffer_m w + position_m w) 0 len,
                     w\<lparr>position_m := position_m w + len\<rparr>)))"

definition reserveBytes ::
  "platform \<Rightarrow> size_t \<Rightarrow> ExportSerializeOutput \<Rightarrow> failure \<times> ExportSerializeOutput + size_t \<times> ExportSerializeOutput" where
  "reserveBytes cfg len w =
     and_then (assureExpand cfg w len)
       (\<lambda>_. let offset = position_m w in Inr (offset, w\<lparr>position_m := position_m w + len\<rparr>))"

text \<open>
  The private template \<^verbatim>\<open>writePrimitiveAt\<close> calls a \<^verbatim>\<open>writeBytesAt\<close> that the class does not
  declare; it is never instantiated and has no behaviour to model.
\<close>

section \<open>Vocabulary of the properties\<close>

text \<open>\<open>fits w n\<close>: \<open>n\<close> more bytes stay within the capacity; \<open>overruns w n\<close>: they do not,
  and the sum \<open>position + n\<close> is still a \<^verbatim>\<open>size_t\<close>.\<close>

definition fits :: "ExportSerializeOutput \<Rightarrow> nat \<Rightarrow> bool" where
  "fits w n = (unat (position_m w) + n \<le> unat (capacity_m w))"

definition overruns :: "ExportSerializeOutput \<Rightarrow> nat \<Rightarrow> bool" where
  "overruns w n = (unat (capacity_m w) < unat (position_m w) + n \<and> unat (position_m w) + n < 2 ^ 64)"

text \<open>The Reader's invariant \<open>current \<le> end\<close>; \<open>room r n\<close>: \<open>n\<close> more bytes end at or before the
  end; \<open>past_end r n\<close>: they end after it, at an address that has not wrapped.\<close>

definition in_bounds :: "ExportSerializeInput \<Rightarrow> bool" where
  "in_bounds r = (current_m r \<le> end_m r)"

definition room :: "ExportSerializeInput \<Rightarrow> nat \<Rightarrow> bool" where
  "room r n = (unat (current_m r) + n \<le> unat (end_m r))"

definition past_end :: "ExportSerializeInput \<Rightarrow> nat \<Rightarrow> bool" where
  "past_end r n = (unat (end_m r) < unat (current_m r) + n \<and> unat (current_m r) + n < 2 ^ 64)"

text \<open>
  Frame conditions: \<open>unchanged_outside m m' p n\<close> says that \<open>m'\<close> agrees with \<open>m\<close> at every
  address outside \<open>[p, p + n)\<close>; \<open>frame\<close> asks it of the memory a call returns or fails with,
  \<open>preserves\<close> asks that the \<open>k\<close> bytes at \<open>buf\<close> read the same afterwards.
\<close>

definition unchanged_outside :: "memory \<Rightarrow> memory \<Rightarrow> addr \<Rightarrow> nat \<Rightarrow> bool" where
  "unchanged_outside m m' p n = (\<forall>x. n \<le> unat (x - p) \<longrightarrow> m' x = m x)"

definition frame :: "failure \<times> memory \<times> 's + memory \<times> 'c \<Rightarrow> memory \<Rightarrow> addr \<Rightarrow> nat \<Rightarrow> bool" where
  "frame res m p n =
     (case res of Inl (f, (m', s)) \<Rightarrow> unchanged_outside m m' p n
      | Inr (m', c) \<Rightarrow> unchanged_outside m m' p n)"

definition preserves :: "failure \<times> memory \<times> 's + memory \<times> 'c \<Rightarrow> memory \<Rightarrow> addr \<Rightarrow> nat \<Rightarrow> bool" where
  "preserves res m buf k =
     (case res of Inl (f, (m', s)) \<Rightarrow> load m' buf k = load m buf k
      | Inr (m', c) \<Rightarrow> load m' buf k = load m buf k)"

subsection \<open>Concrete platforms, Writers and memories\<close>

text \<open>A build with assertions and one without, both little-endian.\<close>

definition debug_LE :: platform where
  "debug_LE = \<lparr>NDEBUG = False, big_endian = False\<rparr>"

definition release_LE :: platform where
  "release_LE = \<lparr>NDEBUG = True, big_endian = False\<rparr>"

text \<open>Writers over the buffer at address 4096: fresh with capacity 4, 8 and 9, and one that
  is full; a fresh Writer over 4 GiB at address \<open>2 ^ 32\<close>.\<close>

definition writer4 :: ExportSerializeOutput where
  "writer4 = \<lparr>buffer_m = 4096, position_m = 0, capacity_m = 4\<rparr>"

definition writer8 :: ExportSerializeOutput where
  "writer8 = \<lparr>buffer_m = 4096, position_m = 0, capacity_m = 8\<rparr>"

definition writer9 :: ExportSerializeOutput where
  "writer9 = \<lparr>buffer_m = 4096, position_m = 0, capacity_m = 9\<rparr>"

definition writer_full :: ExportSerializeOutput where
  "writer_full = \<lparr>buffer_m = 4096, position_m = 8, capacity_m = 8\<rparr>"

definition writer_4G :: ExportSerializeOutput where
  "writer_4G = \<lparr>buffer_m = 4294967296, position_m = 0, capacity_m = 4294967296\<rparr>"

text \<open>Memories: the length prefix \<open>-8\<close> at 4096, alone and followed by three other bytes; the record \<open>4, "text"\<close> at 4096; the bytes
  \<open>"hello"\<close> at 8192.\<close>

definition negative_length_memory :: memory where
  "negative_length_memory = store zero_memory 4096 [248, 255, 255, 255]"

definition text_memory :: memory where
  "text_memory = store zero_memory 4096 [4, 0, 0, 0, 116, 101, 120, 116]"

definition negative_length_memory' :: memory where
  "negative_length_memory' = store negative_length_memory 4100 [1, 2, 3]"

definition hello_memory :: memory where
  "hello_memory = store zero_memory 8192 [104, 101, 108, 108, 111]"

section \<open>Basic facts\<close>

lemma length_load: "length (load m p n) = n"
  by (simp add: load_def)

lemma nth_load: "i < n \<Longrightarrow> load m p n ! i = m (p + of_nat i)"
  by (simp add: load_def)

lemma length_word_bytes: "length (word_bytes n v) = n"
  by (induction n arbitrary: v) simp_all

lemma length_object_bytes: "length (object_bytes cfg v) = sizeof v"
  by (simp add: object_bytes_def Let_def length_word_bytes)

lemma ucast_ucast_byte: "(ucast (ucast (v::'a::len word) :: byte) :: 'a word) = take_bit 8 v"
  by (rule bit_word_eqI) (auto simp: bit_simps)

lemma take_bit_byte_step:
  "take_bit 8 v + push_bit 8 (take_bit (8 * n) (drop_bit 8 v)) = take_bit (8 * Suc n) (v::'a::len word)"
proof -
  have "take_bit (8 * Suc n) v =
      push_bit 8 (drop_bit 8 (take_bit (8 * Suc n) v)) + take_bit 8 (take_bit (8 * Suc n) v)"
    by (simp only: bits_ident)
  also have "drop_bit 8 (take_bit (8 * Suc n) v) = take_bit (8 * n) (drop_bit 8 v)"
    by (simp add: drop_bit_take_bit)
  also have "take_bit 8 (take_bit (8 * Suc n) v) = take_bit 8 v"
    by simp
  finally show ?thesis by (simp add: add.commute)
qed

lemma bytes_word_word_bytes:
  "(bytes_word (word_bytes n v) :: 'a::len word) = take_bit (8 * n) v"
proof (induction n arbitrary: v)
  case 0
  show ?case by simp
next
  case (Suc n)
  have "(bytes_word (word_bytes (Suc n) v) :: 'a word) =
      take_bit 8 v + push_bit 8 (take_bit (8 * n) (drop_bit 8 v))"
    by (simp add: Suc ucast_ucast_byte)
  also have "\<dots> = take_bit (8 * Suc n) v"
    by (rule take_bit_byte_step)
  finally show ?case .
qed

lemma object_value_object_bytes:
  assumes "8 dvd LENGTH('a::len)"
  shows "object_value cfg (object_bytes cfg (v::'a word)) = v"
proof -
  have "8 * (LENGTH('a) div 8) = LENGTH('a)"
    using assms by simp
  then have "take_bit (8 * (LENGTH('a) div 8)) v = v"
    by simp
  then show ?thesis
    by (simp add: object_value_def object_bytes_def Let_def sizeof_def bytes_word_word_bytes)
qed

lemma store_inside: "unat (x - p) < length bs \<Longrightarrow> store m p bs x = bs ! unat (x - p)"
  by (simp add: store_def)

lemma store_outside: "length bs \<le> unat (x - p) \<Longrightarrow> store m p bs x = m x"
  by (simp add: store_def)

lemma load_store_same:
  assumes "length bs \<le> 2 ^ 64"
  shows "load (store m p bs) p (length bs) = bs"
proof (rule nth_equalityI)
  show "length (load (store m p bs) p (length bs)) = length bs"
    by (simp add: length_load)
next
  fix i assume "i < length (load (store m p bs) p (length bs))"
  then have i: "i < length bs" by (simp add: length_load)
  then have "i < 2 ^ 64" using assms by simp
  then have "unat (of_nat i :: addr) = i"
    by (simp add: unat_of_nat)
  then show "load (store m p bs) p (length bs) ! i = bs ! i"
    using i by (simp add: nth_load store_def)
qed

lemma load_cong:
  assumes "\<And>i. i < n \<Longrightarrow> m' (p + of_nat i) = m (p + of_nat i)"
  shows "load m' p n = load m p n"
  using assms by (simp add: load_def)

lemma disjoint_ranges_outside:
  assumes d: "disjoint_ranges p n q k" and j: "j < k"
  shows "n \<le> unat (q + of_nat j - p)"
proof -
  have n: "n \<le> unat (q - p)" and k: "k \<le> unat (p - q)"
    using d by (simp_all add: disjoint_ranges_def)
  have "p - q = 0 - (q - p)" by simp
  then have "unat (p - q) = (if unat (q - p) \<le> 0 then 0 else 2 ^ 64 - unat (q - p))"
    by (simp only: unat_sub_if_size) (simp add: word_size)
  with k j have lt: "unat (q - p) + j < 2 ^ 64"
    by (simp split: if_splits)
  then have "j < 2 ^ 64" by simp
  then have "unat (of_nat j :: addr) = j"
    by (simp add: unat_of_nat)
  with lt have sum: "unat ((q - p) + (of_nat j :: addr)) = unat (q - p) + j"
    by (simp add: unat_word_ariths)
  have eq: "q + of_nat j - p = (q - p) + of_nat j" by simp
  have "unat (q + of_nat j - p) = unat (q - p) + j"
    by (subst eq) (rule sum)
  then show ?thesis using n by linarith
qed

lemma assureExpand_fits:
  assumes "fits w (unat n)"
  shows "assureExpand cfg w n = Inr ()"
proof -
  have "unat (position_m w) + unat n \<le> unat (capacity_m w)"
    using assms by (simp add: fits_def)
  moreover have "unat (capacity_m w) < 2 ^ 64"
    using unsigned_less [of "capacity_m w"] by simp
  ultimately have "unat (position_m w + n) = unat (position_m w) + unat n"
    by (simp add: unat_add_lem [THEN iffD1])
  with \<open>unat (position_m w) + unat n \<le> unat (capacity_m w)\<close>
  have "position_m w + n \<le> capacity_m w"
    by (simp add: word_le_nat_alt)
  then show ?thesis
    by (simp add: assureExpand_def assert_that_def)
qed

lemma assureExpand_overruns:
  assumes "overruns w (unat n)" and "\<not> NDEBUG cfg"
  shows "assureExpand cfg w n = Inl (Assert_capacity_ge_minimum_desired, w)"
proof -
  have gt: "unat (capacity_m w) < unat (position_m w) + unat n"
    and lt: "unat (position_m w) + unat n < 2 ^ 64"
    using assms(1) by (simp_all add: overruns_def)
  have "unat (position_m w + n) = unat (position_m w) + unat n"
    using lt by (simp add: unat_add_lem [THEN iffD1])
  with gt have "\<not> position_m w + n \<le> capacity_m w"
    by (simp add: word_le_nat_alt)
  then show ?thesis
    using assms(2) by (simp add: assureExpand_def assert_that_def)
qed

lemma assureExpand_release: "NDEBUG cfg \<Longrightarrow> assureExpand cfg w n = Inr ()"
  by (simp add: assureExpand_def assert_that_def)

section \<open>Round trip of the primitives\<close>

lemma assureExpand_fits_nat:
  assumes "fits w n"
  shows "assureExpand cfg w (of_nat n) = Inr ()"
proof -
  have "unat (capacity_m w) < 2 ^ 64"
    using unsigned_less [of "capacity_m w"] by simp
  with assms have "n < 2 ^ 64" by (simp add: fits_def)
  then have "unat (of_nat n :: size_t) = n" by (simp add: unat_of_nat)
  with assms show ?thesis by (simp add: assureExpand_fits)
qed

lemma writePrimitive_fits:
  assumes "fits w (sizeof v)"
  shows "writePrimitive cfg v (m, w) =
    Inr (store m (buffer_m w + position_m w) (object_bytes cfg v),
         w\<lparr>position_m := position_m w + of_nat (sizeof v)\<rparr>)"
  using assms by (simp add: writePrimitive_def assureExpand_fits_nat and_then_def in_memory_def)

lemma writePrimitive_release:
  assumes "NDEBUG cfg"
  shows "writePrimitive cfg v (m, w) =
    Inr (store m (buffer_m w + position_m w) (object_bytes cfg v),
         w\<lparr>position_m := position_m w + of_nat (sizeof v)\<rparr>)"
  using assms by (simp add: writePrimitive_def assureExpand_release and_then_def in_memory_def)

lemma readPrimitive_store:
  assumes "8 dvd LENGTH('a::len)" and "LENGTH('a) div 8 \<le> 2 ^ 64" and "current_m r = p"
  shows "readPrimitive cfg (store m p (object_bytes cfg (v::'a word))) r =
    (v, r\<lparr>current_m := p + of_nat (LENGTH('a) div 8)\<rparr>)"
proof -
  have len: "length (object_bytes cfg v) = LENGTH('a) div 8"
    by (simp add: length_object_bytes sizeof_def)
  have "load (store m p (object_bytes cfg v)) p (length (object_bytes cfg v)) = object_bytes cfg v"
    using assms(2) by (intro load_store_same) (simp add: len)
  then have "load (store m p (object_bytes cfg v)) p (LENGTH('a) div 8) = object_bytes cfg v"
    by (simp only: len)
  then show ?thesis
    using assms(1,3) by (simp add: readPrimitive_def Let_def object_value_object_bytes)
qed

lemma round_trip_char:
  assumes "current_m r = buffer_m w + position_m w" and "fits w 1"
  shows "returns (writeChar cfg c (m, w)) (\<lambda>(m', w'). fst (readChar cfg m' r) = c)"
  using assms
  by (simp add: writeChar_def readChar_def writePrimitive_fits sizeof_def returns_def
      readPrimitive_store)

lemma round_trip_byte:
  assumes "current_m r = buffer_m w + position_m w" and "fits w 1"
  shows "returns (writeByte cfg c (m, w)) (\<lambda>(m', w'). fst (readByte cfg m' r) = c)"
  using assms
  by (simp add: writeByte_def readByte_def writePrimitive_fits sizeof_def returns_def
      readPrimitive_store)

lemma round_trip_short:
  assumes "current_m r = buffer_m w + position_m w" and "fits w 2"
  shows "returns (writeShort cfg c (m, w)) (\<lambda>(m', w'). fst (readShort cfg m' r) = c)"
  using assms
  by (simp add: writeShort_def readShort_def writePrimitive_fits sizeof_def returns_def
      readPrimitive_store)

lemma round_trip_int:
  assumes "current_m r = buffer_m w + position_m w" and "fits w 4"
  shows "returns (writeInt cfg c (m, w)) (\<lambda>(m', w'). fst (readInt cfg m' r) = c)"
  using assms
  by (simp add: writeInt_def readInt_def writePrimitive_fits sizeof_def returns_def
      readPrimitive_store)

lemma round_trip_long:
  assumes "current_m r = buffer_m w + position_m w" and "fits w 8"
  shows "returns (writeLong cfg c (m, w)) (\<lambda>(m', w'). fst (readLong cfg m' r) = c)"
  using assms
  by (simp add: writeLong_def readLong_def writePrimitive_fits sizeof_def returns_def
      readPrimitive_store)

lemma round_trip_bool:
  assumes "current_m r = buffer_m w + position_m w" and "fits w 1"
  shows "returns (writeBool cfg b (m, w)) (\<lambda>(m', w'). fst (readBool cfg m' r) = b)"
  using assms
  by (simp add: writeBool_def readBool_def writeByte_def readByte_def writePrimitive_fits
      sizeof_def returns_def readPrimitive_store)

lemma sint_ucast_signed_take_bit:
  "sint (ucast (v::32 word) :: 8 word) = signed_take_bit 7 (sint v)"
  by transfer (simp add: signed_take_bit_take_bit)

lemma sint_ucast_int8:
  assumes "- 128 \<le> sint (v::32 word)" and "sint v \<le> 127"
  shows "sint (ucast v :: 8 word) = sint v"
proof -
  have "signed_take_bit 7 (sint v) = sint v"
    using assms by (intro signed_take_bit_int_eq_self) simp_all
  then show ?thesis by (simp add: sint_ucast_signed_take_bit)
qed

lemma round_trip_enum:
  assumes "current_m r = buffer_m w + position_m w" and "fits w 1"
    and "- 128 \<le> sint e" and "sint e \<le> 127"
  shows "returns (writeEnumInSingleByte cfg e (m, w))
    (\<lambda>(m', w'). sint (fst (readEnumInSingleByte cfg m' r)) = sint e)"
  using assms
  by (simp add: writeEnumInSingleByte_def readEnumInSingleByte_def assert_that_def and_then_def in_memory_def
      writeByte_def readByte_def writePrimitive_fits sizeof_def returns_def readPrimitive_store
      sint_ucast_int8)

lemma round_trip_float:
  assumes "current_m r = buffer_m w + position_m w" and "fits w 4"
  shows "returns (writeFloat cfg c (m, w)) (\<lambda>(m', w'). fst (readFloat cfg m' r) = c)"
  using assms
  by (simp add: writeFloat_def readFloat_def writePrimitive_fits sizeof_def returns_def
      readPrimitive_store)

lemma round_trip_double:
  assumes "current_m r = buffer_m w + position_m w" and "fits w 8"
  shows "returns (writeDouble cfg c (m, w)) (\<lambda>(m', w'). fst (readDouble cfg m' r) = c)"
  using assms
  by (simp add: writeDouble_def readDouble_def writePrimitive_fits sizeof_def returns_def
      readPrimitive_store)

text \<open>
  C1. Round trip of the primitives: a value written by the Writer's typed operation into a
  buffer with enough remaining capacity is what the Reader's matching operation decodes at
  the same address; floats and doubles come back with the same bit pattern. The enum tag is
  an \<^verbatim>\<open>int\<close> on the way in and a \<^verbatim>\<open>char\<close> on the way out, equal as signed numbers when the tag
  is a signed byte.
\<close>

theorem round_trip_primitives:
  assumes "current_m r = buffer_m w + position_m w"
  shows "(fits w 1 \<longrightarrow> returns (writeChar cfg c (m, w)) (\<lambda>(m', w'). fst (readChar cfg m' r) = c))
    \<and> (fits w 1 \<longrightarrow> returns (writeByte cfg b (m, w)) (\<lambda>(m', w'). fst (readByte cfg m' r) = b))
    \<and> (fits w 2 \<longrightarrow> returns (writeShort cfg s (m, w)) (\<lambda>(m', w'). fst (readShort cfg m' r) = s))
    \<and> (fits w 4 \<longrightarrow> returns (writeInt cfg i (m, w)) (\<lambda>(m', w'). fst (readInt cfg m' r) = i))
    \<and> (fits w 8 \<longrightarrow> returns (writeLong cfg l (m, w)) (\<lambda>(m', w'). fst (readLong cfg m' r) = l))
    \<and> (fits w 1 \<longrightarrow> returns (writeBool cfg t (m, w)) (\<lambda>(m', w'). fst (readBool cfg m' r) = t))
    \<and> (fits w 1 \<and> - 128 \<le> sint e \<and> sint e \<le> 127 \<longrightarrow>
         returns (writeEnumInSingleByte cfg e (m, w))
           (\<lambda>(m', w'). sint (fst (readEnumInSingleByte cfg m' r)) = sint e))
    \<and> (fits w 4 \<longrightarrow> returns (writeFloat cfg f (m, w)) (\<lambda>(m', w'). fst (readFloat cfg m' r) = f))
    \<and> (fits w 8 \<longrightarrow> returns (writeDouble cfg d (m, w)) (\<lambda>(m', w'). fst (readDouble cfg m' r) = d))"
proof (intro conjI impI)
  show "returns (writeChar cfg c (m, w)) (\<lambda>(m', w'). fst (readChar cfg m' r) = c)" if "fits w 1"
    using assms that by (rule round_trip_char)
  show "returns (writeByte cfg b (m, w)) (\<lambda>(m', w'). fst (readByte cfg m' r) = b)" if "fits w 1"
    using assms that by (rule round_trip_byte)
  show "returns (writeShort cfg s (m, w)) (\<lambda>(m', w'). fst (readShort cfg m' r) = s)" if "fits w 2"
    using assms that by (rule round_trip_short)
  show "returns (writeInt cfg i (m, w)) (\<lambda>(m', w'). fst (readInt cfg m' r) = i)" if "fits w 4"
    using assms that by (rule round_trip_int)
  show "returns (writeLong cfg l (m, w)) (\<lambda>(m', w'). fst (readLong cfg m' r) = l)" if "fits w 8"
    using assms that by (rule round_trip_long)
  show "returns (writeBool cfg t (m, w)) (\<lambda>(m', w'). fst (readBool cfg m' r) = t)" if "fits w 1"
    using assms that by (rule round_trip_bool)
  show "returns (writeEnumInSingleByte cfg e (m, w))
      (\<lambda>(m', w'). sint (fst (readEnumInSingleByte cfg m' r)) = sint e)"
    if "fits w 1 \<and> - 128 \<le> sint e \<and> sint e \<le> 127"
    using assms that by (simp add: round_trip_enum)
  show "returns (writeFloat cfg f (m, w)) (\<lambda>(m', w'). fst (readFloat cfg m' r) = f)" if "fits w 4"
    using assms that by (rule round_trip_float)
  show "returns (writeDouble cfg d (m, w)) (\<lambda>(m', w'). fst (readDouble cfg m' r) = d)" if "fits w 8"
    using assms that by (rule round_trip_double)
qed

theorem round_trip_primitives_witness:
  "current_m (ExportSerializeInput_new 4096 8) = buffer_m writer8 + position_m writer8
    \<and> fits writer8 1 \<and> fits writer8 2 \<and> fits writer8 4 \<and> fits writer8 8
    \<and> - 128 \<le> sint (- 3 :: 32 word) \<and> sint (- 3 :: 32 word) \<le> 127
    \<and> returns (writeChar debug_LE 65 (zero_memory, writer8))
         (\<lambda>(m', w'). fst (readChar debug_LE m' (ExportSerializeInput_new 4096 8)) = 65)
    \<and> returns (writeByte debug_LE (- 2) (zero_memory, writer8))
         (\<lambda>(m', w'). fst (readByte debug_LE m' (ExportSerializeInput_new 4096 8)) = - 2)
    \<and> returns (writeShort debug_LE 513 (zero_memory, writer8))
         (\<lambda>(m', w'). fst (readShort debug_LE m' (ExportSerializeInput_new 4096 8)) = 513)
    \<and> returns (writeInt debug_LE 42 (zero_memory, writer8))
         (\<lambda>(m', w'). fst (readInt debug_LE m' (ExportSerializeInput_new 4096 8)) = 42)
    \<and> returns (writeLong debug_LE (- 1) (zero_memory, writer8))
         (\<lambda>(m', w'). fst (readLong debug_LE m' (ExportSerializeInput_new 4096 8)) = - 1)
    \<and> returns (writeBool debug_LE True (zero_memory, writer8))
         (\<lambda>(m', w'). fst (readBool debug_LE m' (ExportSerializeInput_new 4096 8)) = True)
    \<and> returns (writeEnumInSingleByte debug_LE (- 3) (zero_memory, writer8))
         (\<lambda>(m', w'). sint (fst (readEnumInSingleByte debug_LE m' (ExportSerializeInput_new 4096 8)))
            = sint (- 3 :: 32 word))
    \<and> returns (writeFloat debug_LE (Float 1065353216) (zero_memory, writer8))
         (\<lambda>(m', w'). fst (readFloat debug_LE m' (ExportSerializeInput_new 4096 8)) = Float 1065353216)
    \<and> returns (writeDouble debug_LE (Double 4607182418800017408) (zero_memory, writer8))
         (\<lambda>(m', w'). fst (readDouble debug_LE m' (ExportSerializeInput_new 4096 8))
            = Double 4607182418800017408)"
proof -
  have cur: "current_m (ExportSerializeInput_new 4096 8) = buffer_m writer8 + position_m writer8"
    by (simp add: ExportSerializeInput_new_def writer8_def)
  have fit: "fits writer8 1" "fits writer8 2" "fits writer8 4" "fits writer8 8"
    by (simp_all add: fits_def writer8_def)
  have rng: "- 128 \<le> sint (- 3 :: 32 word)" "sint (- 3 :: 32 word) \<le> 127"
    by simp_all
  show ?thesis
    using cur fit rng
      round_trip_primitives [OF cur, of debug_LE 65 zero_memory "- 2" 513 42 "- 1" True "- 3"
        "Float 1065353216" "Double 4607182418800017408"]
    by simp
qed

section \<open>The capacity check of the Writer\<close>

lemma unat_plus_no_wrap:
  "unat a + unat b < 2 ^ 64 \<Longrightarrow> unat (a + b :: size_t) = unat a + unat b"
  by (simp add: unat_add_lem [THEN iffD1])

lemma assureExpand_overruns_nat:
  assumes "overruns w n" and "\<not> NDEBUG cfg"
  shows "assureExpand cfg w (of_nat n) = Inl (Assert_capacity_ge_minimum_desired, w)"
proof -
  from assms(1) have "n < 2 ^ 64" by (simp add: overruns_def)
  then have "unat (of_nat n :: size_t) = n" by (simp add: unat_of_nat)
  with assms show ?thesis by (simp add: assureExpand_overruns)
qed

lemma writePrimitive_overruns:
  assumes "\<not> NDEBUG cfg" and "overruns w (sizeof v)"
  shows "writePrimitive cfg v (m, w) =
        Inl (Assert_capacity_ge_minimum_desired, (m, w))"
  using assms by (simp add: writePrimitive_def assureExpand_overruns_nat and_then_def in_memory_def)

lemma fits_unat_plus4:
  assumes "fits w (unat (len :: size_t) + 4)"
  shows "fits w (unat (len + 4))"
proof -
  have "unat (capacity_m w) < 2 ^ 64"
    using unsigned_less [of "capacity_m w"] by simp
  with assms have "unat len + unat (4 :: size_t) < 2 ^ 64" by (simp add: fits_def)
  then have "unat (len + 4) = unat len + unat (4 :: size_t)"
    by (rule unat_plus_no_wrap)
  with assms show ?thesis by simp
qed

lemma overruns_unat_plus4:
  assumes "overruns w (unat (len :: size_t) + 4)"
  shows "overruns w (unat (len + 4))"
proof -
  from assms have "unat len + unat (4 :: size_t) < 2 ^ 64" by (simp add: overruns_def)
  then have "unat (len + 4) = unat len + unat (4 :: size_t)"
    by (rule unat_plus_no_wrap)
  with assms show ?thesis by simp
qed

lemma writeChar_fits:
  assumes "fits w 1"
  shows "writeChar cfg c (m, w) =
    Inr (store m (buffer_m w + position_m w) (object_bytes cfg c),
         w\<lparr>position_m := position_m w + 1\<rparr>)"
  using assms by (simp add: writeChar_def writePrimitive_fits sizeof_def)

lemma writeChar_overruns:
  assumes "\<not> NDEBUG cfg" and "overruns w 1"
  shows "writeChar cfg c (m, w) =
        Inl (Assert_capacity_ge_minimum_desired, (m, w))"
  using assms by (simp add: writeChar_def writePrimitive_overruns sizeof_def)

lemma writeByte_fits:
  assumes "fits w 1"
  shows "writeByte cfg b (m, w) =
    Inr (store m (buffer_m w + position_m w) (object_bytes cfg b),
         w\<lparr>position_m := position_m w + 1\<rparr>)"
  using assms by (simp add: writeByte_def writePrimitive_fits sizeof_def)

lemma writeByte_overruns:
  assumes "\<not> NDEBUG cfg" and "overruns w 1"
  shows "writeByte cfg b (m, w) =
        Inl (Assert_capacity_ge_minimum_desired, (m, w))"
  using assms by (simp add: writeByte_def writePrimitive_overruns sizeof_def)

lemma writeShort_fits:
  assumes "fits w 2"
  shows "writeShort cfg s (m, w) =
    Inr (store m (buffer_m w + position_m w) (object_bytes cfg s),
         w\<lparr>position_m := position_m w + 2\<rparr>)"
  using assms by (simp add: writeShort_def writePrimitive_fits sizeof_def)

lemma writeShort_overruns:
  assumes "\<not> NDEBUG cfg" and "overruns w 2"
  shows "writeShort cfg s (m, w) =
        Inl (Assert_capacity_ge_minimum_desired, (m, w))"
  using assms by (simp add: writeShort_def writePrimitive_overruns sizeof_def)

lemma writeInt_fits:
  assumes "fits w 4"
  shows "writeInt cfg i (m, w) =
    Inr (store m (buffer_m w + position_m w) (object_bytes cfg i),
         w\<lparr>position_m := position_m w + 4\<rparr>)"
  using assms by (simp add: writeInt_def writePrimitive_fits sizeof_def)

lemma writeInt_overruns:
  assumes "\<not> NDEBUG cfg" and "overruns w 4"
  shows "writeInt cfg i (m, w) =
        Inl (Assert_capacity_ge_minimum_desired, (m, w))"
  using assms by (simp add: writeInt_def writePrimitive_overruns sizeof_def)

lemma writeLong_fits:
  assumes "fits w 8"
  shows "writeLong cfg l (m, w) =
    Inr (store m (buffer_m w + position_m w) (object_bytes cfg l),
         w\<lparr>position_m := position_m w + 8\<rparr>)"
  using assms by (simp add: writeLong_def writePrimitive_fits sizeof_def)

lemma writeLong_overruns:
  assumes "\<not> NDEBUG cfg" and "overruns w 8"
  shows "writeLong cfg l (m, w) =
        Inl (Assert_capacity_ge_minimum_desired, (m, w))"
  using assms by (simp add: writeLong_def writePrimitive_overruns sizeof_def)

lemma writeBool_fits:
  assumes "fits w 1"
  shows "writeBool cfg t (m, w) =
    Inr (store m (buffer_m w + position_m w) (object_bytes cfg (if t then 1 else 0 :: 8 word)),
         w\<lparr>position_m := position_m w + 1\<rparr>)"
  using assms by (simp add: writeBool_def writeByte_def writePrimitive_fits sizeof_def)

lemma writeBool_overruns:
  assumes "\<not> NDEBUG cfg" and "overruns w 1"
  shows "writeBool cfg t (m, w) =
        Inl (Assert_capacity_ge_minimum_desired, (m, w))"
  using assms by (simp add: writeBool_def writeByte_def writePrimitive_overruns sizeof_def)

lemma writeFloat_fits:
  assumes "fits w 4"
  shows "writeFloat cfg f (m, w) =
    Inr (store m (buffer_m w + position_m w) (object_bytes cfg (float_bits f)),
         w\<lparr>position_m := position_m w + 4\<rparr>)"
  using assms by (simp add: writeFloat_def writePrimitive_fits sizeof_def)

lemma writeFloat_overruns:
  assumes "\<not> NDEBUG cfg" and "overruns w 4"
  shows "writeFloat cfg f (m, w) =
        Inl (Assert_capacity_ge_minimum_desired, (m, w))"
  using assms by (simp add: writeFloat_def writePrimitive_overruns sizeof_def)

lemma writeDouble_fits:
  assumes "fits w 8"
  shows "writeDouble cfg d (m, w) =
    Inr (store m (buffer_m w + position_m w) (object_bytes cfg (double_bits d)),
         w\<lparr>position_m := position_m w + 8\<rparr>)"
  using assms by (simp add: writeDouble_def writePrimitive_fits sizeof_def)

lemma writeDouble_overruns:
  assumes "\<not> NDEBUG cfg" and "overruns w 8"
  shows "writeDouble cfg d (m, w) =
        Inl (Assert_capacity_ge_minimum_desired, (m, w))"
  using assms by (simp add: writeDouble_def writePrimitive_overruns sizeof_def)

lemma writeEnumInSingleByte_fits:
  assumes "fits w 1" and "- 128 \<le> sint e" and "sint e \<le> 127"
  shows "writeEnumInSingleByte cfg e (m, w) =
    Inr (store m (buffer_m w + position_m w) (object_bytes cfg (ucast e :: 8 word)),
         w\<lparr>position_m := position_m w + 1\<rparr>)"
  using assms by (simp add: writeEnumInSingleByte_def assert_that_def and_then_def in_memory_def writeByte_fits)

lemma writeEnumInSingleByte_overruns:
  assumes "\<not> NDEBUG cfg" and "overruns w 1"
  shows "writeEnumInSingleByte cfg e (m, w) =
    Inl (if - 128 \<le> sint e \<and> sint e \<le> 127 then Assert_capacity_ge_minimum_desired
         else Assert_enum_fits_int8, (m, w))"
  using assms
  by (simp add: writeEnumInSingleByte_def assert_that_def and_then_def writeByte_overruns)

lemma writeBinaryString_fits:
  assumes "fits w (unat len + 4)"
  shows "writeBinaryString cfg val len (m, w) =
    Inr (memcpy (store m (buffer_m w + position_m w) (object_bytes cfg (ucast len :: 32 word)))
           (buffer_m w + position_m w + 4) val len,
         w\<lparr>position_m := position_m w + (4 + len)\<rparr>)"
  using fits_unat_plus4 [OF assms]
  by (simp add: writeBinaryString_def Let_def sizeof_def assureExpand_fits and_then_def in_memory_def)

lemma writeBinaryString_overruns:
  assumes "\<not> NDEBUG cfg" and "overruns w (unat len + 4)"
  shows "writeBinaryString cfg val len (m, w) =
        Inl (Assert_capacity_ge_minimum_desired, (m, w))"
  using assms(1) overruns_unat_plus4 [OF assms(2)]
  by (simp add: writeBinaryString_def Let_def sizeof_def assureExpand_overruns and_then_def in_memory_def)

lemma writeBytes_fits:
  assumes "fits w (unat len)"
  shows "writeBytes cfg val len (m, w) =
    Inr (memcpy m (buffer_m w + position_m w) val len, w\<lparr>position_m := position_m w + len\<rparr>)"
  using assms by (simp add: writeBytes_def assureExpand_fits and_then_def in_memory_def)

lemma writeBytes_overruns:
  assumes "\<not> NDEBUG cfg" and "overruns w (unat len)"
  shows "writeBytes cfg val len (m, w) =
        Inl (Assert_capacity_ge_minimum_desired, (m, w))"
  using assms by (simp add: writeBytes_def assureExpand_overruns and_then_def in_memory_def)

lemma writeZeros_fits:
  assumes "fits w (unat len)"
  shows "writeZeros cfg len (m, w) =
    Inr (memset m (buffer_m w + position_m w) 0 len, w\<lparr>position_m := position_m w + len\<rparr>)"
  using assms by (simp add: writeZeros_def assureExpand_fits and_then_def in_memory_def)

lemma writeZeros_overruns:
  assumes "\<not> NDEBUG cfg" and "overruns w (unat len)"
  shows "writeZeros cfg len (m, w) =
        Inl (Assert_capacity_ge_minimum_desired, (m, w))"
  using assms by (simp add: writeZeros_def assureExpand_overruns and_then_def in_memory_def)

lemma reserveBytes_fits:
  assumes "fits w (unat len)"
  shows "reserveBytes cfg len w = Inr (position_m w, w\<lparr>position_m := position_m w + len\<rparr>)"
  using assms by (simp add: reserveBytes_def assureExpand_fits and_then_def in_memory_def)

lemma reserveBytes_overruns:
  assumes "\<not> NDEBUG cfg" and "overruns w (unat len)"
  shows "reserveBytes cfg len w = Inl (Assert_capacity_ge_minimum_desired, w)"
  using assms by (simp add: reserveBytes_def assureExpand_overruns and_then_def in_memory_def)

lemma word_bytes_numeral:
  "word_bytes (numeral k) v = ucast v # word_bytes (pred_numeral k) (drop_bit 8 v)"
  by (simp add: numeral_eq_Suc)

lemma object_bytes_byte: "object_bytes cfg (b :: 8 word) = [b]"
  by (simp add: object_bytes_def sizeof_def Let_def)

text \<open>
  C2, as the code has it. A Writer operation that asks for \<open>n\<close> bytes at position \<open>p\<close> with
  \<open>p + n \<le> capacity\<close> proceeds: it writes its bytes at \<open>p\<close> and moves the cursor to \<open>p + n\<close>
  (the enum tag write when its tag is also within \<open>[-128, 127]\<close>, which it asserts first).
  With \<open>p + n > capacity\<close> (the sum within \<^verbatim>\<open>size_t\<close>) and assertions compiled in, the process
  aborts at the assertion of \<^verbatim>\<open>assureExpand\<close> (the enum tag write at its range assertion, when
  the tag is out of range), and the memory and the Writer at that moment are the ones the
  operation was given: no byte was written and the cursor did not move. No operation returns
  an error value.
\<close>

theorem writer_capacity_check:
  "(fits w 1 \<longrightarrow> writeChar cfg c (m, w) =
        Inr (store m (buffer_m w + position_m w) (object_bytes cfg c),
             w\<lparr>position_m := position_m w + 1\<rparr>))
    \<and> (\<not> NDEBUG cfg \<and> overruns w 1 \<longrightarrow> writeChar cfg c (m, w) =
        Inl (Assert_capacity_ge_minimum_desired, (m, w)))
    \<and> (fits w 1 \<longrightarrow> writeByte cfg b (m, w) =
        Inr (store m (buffer_m w + position_m w) (object_bytes cfg b),
             w\<lparr>position_m := position_m w + 1\<rparr>))
    \<and> (\<not> NDEBUG cfg \<and> overruns w 1 \<longrightarrow> writeByte cfg b (m, w) =
        Inl (Assert_capacity_ge_minimum_desired, (m, w)))
    \<and> (fits w 2 \<longrightarrow> writeShort cfg s (m, w) =
        Inr (store m (buffer_m w + position_m w) (object_bytes cfg s),
             w\<lparr>position_m := position_m w + 2\<rparr>))
    \<and> (\<not> NDEBUG cfg \<and> overruns w 2 \<longrightarrow> writeShort cfg s (m, w) =
        Inl (Assert_capacity_ge_minimum_desired, (m, w)))
    \<and> (fits w 4 \<longrightarrow> writeInt cfg i (m, w) =
        Inr (store m (buffer_m w + position_m w) (object_bytes cfg i),
             w\<lparr>position_m := position_m w + 4\<rparr>))
    \<and> (\<not> NDEBUG cfg \<and> overruns w 4 \<longrightarrow> writeInt cfg i (m, w) =
        Inl (Assert_capacity_ge_minimum_desired, (m, w)))
    \<and> (fits w 8 \<longrightarrow> writeLong cfg l (m, w) =
        Inr (store m (buffer_m w + position_m w) (object_bytes cfg l),
             w\<lparr>position_m := position_m w + 8\<rparr>))
    \<and> (\<not> NDEBUG cfg \<and> overruns w 8 \<longrightarrow> writeLong cfg l (m, w) =
        Inl (Assert_capacity_ge_minimum_desired, (m, w)))
    \<and> (fits w 1 \<longrightarrow> writeBool cfg t (m, w) =
        Inr (store m (buffer_m w + position_m w) (object_bytes cfg (if t then 1 else 0 :: 8 word)),
             w\<lparr>position_m := position_m w + 1\<rparr>))
    \<and> (\<not> NDEBUG cfg \<and> overruns w 1 \<longrightarrow> writeBool cfg t (m, w) =
        Inl (Assert_capacity_ge_minimum_desired, (m, w)))
    \<and> (fits w 4 \<longrightarrow> writeFloat cfg f (m, w) =
        Inr (store m (buffer_m w + position_m w) (object_bytes cfg (float_bits f)),
             w\<lparr>position_m := position_m w + 4\<rparr>))
    \<and> (\<not> NDEBUG cfg \<and> overruns w 4 \<longrightarrow> writeFloat cfg f (m, w) =
        Inl (Assert_capacity_ge_minimum_desired, (m, w)))
    \<and> (fits w 8 \<longrightarrow> writeDouble cfg d (m, w) =
        Inr (store m (buffer_m w + position_m w) (object_bytes cfg (double_bits d)),
             w\<lparr>position_m := position_m w + 8\<rparr>))
    \<and> (\<not> NDEBUG cfg \<and> overruns w 8 \<longrightarrow> writeDouble cfg d (m, w) =
        Inl (Assert_capacity_ge_minimum_desired, (m, w)))
    \<and> (fits w 1 \<and> - 128 \<le> sint e \<and> sint e \<le> 127 \<longrightarrow> writeEnumInSingleByte cfg e (m, w) =
        Inr (store m (buffer_m w + position_m w) (object_bytes cfg (ucast e :: 8 word)),
             w\<lparr>position_m := position_m w + 1\<rparr>))
    \<and> (\<not> NDEBUG cfg \<and> overruns w 1 \<longrightarrow> writeEnumInSingleByte cfg e (m, w) =
        Inl (if - 128 \<le> sint e \<and> sint e \<le> 127 then Assert_capacity_ge_minimum_desired
             else Assert_enum_fits_int8, (m, w)))
    \<and> (fits w (unat n + 4) \<longrightarrow> writeBinaryString cfg src n (m, w) =
        Inr (memcpy (store m (buffer_m w + position_m w) (object_bytes cfg (ucast n :: 32 word)))
               (buffer_m w + position_m w + 4) src n,
             w\<lparr>position_m := position_m w + (4 + n)\<rparr>))
    \<and> (\<not> NDEBUG cfg \<and> overruns w (unat n + 4) \<longrightarrow> writeBinaryString cfg src n (m, w) =
        Inl (Assert_capacity_ge_minimum_desired, (m, w)))
    \<and> (fits w (unat n) \<longrightarrow> writeBytes cfg src n (m, w) =
        Inr (memcpy m (buffer_m w + position_m w) src n, w\<lparr>position_m := position_m w + n\<rparr>))
    \<and> (\<not> NDEBUG cfg \<and> overruns w (unat n) \<longrightarrow> writeBytes cfg src n (m, w) =
        Inl (Assert_capacity_ge_minimum_desired, (m, w)))
    \<and> (fits w (unat n) \<longrightarrow> writeZeros cfg n (m, w) =
        Inr (memset m (buffer_m w + position_m w) 0 n, w\<lparr>position_m := position_m w + n\<rparr>))
    \<and> (\<not> NDEBUG cfg \<and> overruns w (unat n) \<longrightarrow> writeZeros cfg n (m, w) =
        Inl (Assert_capacity_ge_minimum_desired, (m, w)))
    \<and> (fits w (unat n) \<longrightarrow> reserveBytes cfg n w =
        Inr (position_m w, w\<lparr>position_m := position_m w + n\<rparr>))
    \<and> (\<not> NDEBUG cfg \<and> overruns w (unat n) \<longrightarrow> reserveBytes cfg n w = Inl (Assert_capacity_ge_minimum_desired, w))"
  by (intro conjI impI; simp add: writeChar_fits writeChar_overruns writeByte_fits writeByte_overruns writeShort_fits writeShort_overruns writeInt_fits writeInt_overruns writeLong_fits writeLong_overruns writeBool_fits writeBool_overruns writeFloat_fits writeFloat_overruns writeDouble_fits writeDouble_overruns writeEnumInSingleByte_fits writeEnumInSingleByte_overruns writeBinaryString_fits writeBinaryString_overruns writeBytes_fits writeBytes_overruns writeZeros_fits writeZeros_overruns reserveBytes_fits reserveBytes_overruns)

theorem writer_capacity_check_witness:
  "fits writer8 1
    \<and> fits writer8 2
    \<and> fits writer8 4
    \<and> fits writer8 8
    \<and> \<not> NDEBUG debug_LE
    \<and> overruns writer_full 1
    \<and> overruns writer_full 2
    \<and> overruns writer_full 4
    \<and> overruns writer_full 8
    \<and> - 128 \<le> sint (- 3 :: 32 word)
    \<and> sint (- 3 :: 32 word) \<le> 127
    \<and> returns (writeChar debug_LE 65 (zero_memory, writer8)) (\<lambda>(m', w'). position_m w' = 1)
    \<and> writeChar debug_LE 65 (zero_memory, writer_full) =
        Inl (Assert_capacity_ge_minimum_desired, (zero_memory, writer_full))
    \<and> returns (writeByte debug_LE (- 2) (zero_memory, writer8)) (\<lambda>(m', w'). position_m w' = 1)
    \<and> writeByte debug_LE (- 2) (zero_memory, writer_full) =
        Inl (Assert_capacity_ge_minimum_desired, (zero_memory, writer_full))
    \<and> returns (writeShort debug_LE 513 (zero_memory, writer8)) (\<lambda>(m', w'). position_m w' = 2)
    \<and> writeShort debug_LE 513 (zero_memory, writer_full) =
        Inl (Assert_capacity_ge_minimum_desired, (zero_memory, writer_full))
    \<and> returns (writeInt debug_LE 42 (zero_memory, writer8)) (\<lambda>(m', w'). position_m w' = 4)
    \<and> writeInt debug_LE 42 (zero_memory, writer_full) =
        Inl (Assert_capacity_ge_minimum_desired, (zero_memory, writer_full))
    \<and> returns (writeLong debug_LE (- 1) (zero_memory, writer8)) (\<lambda>(m', w'). position_m w' = 8)
    \<and> writeLong debug_LE (- 1) (zero_memory, writer_full) =
        Inl (Assert_capacity_ge_minimum_desired, (zero_memory, writer_full))
    \<and> returns (writeBool debug_LE True (zero_memory, writer8)) (\<lambda>(m', w'). position_m w' = 1)
    \<and> writeBool debug_LE True (zero_memory, writer_full) =
        Inl (Assert_capacity_ge_minimum_desired, (zero_memory, writer_full))
    \<and> returns (writeFloat debug_LE (Float 1065353216) (zero_memory, writer8)) (\<lambda>(m', w'). position_m w' = 4)
    \<and> writeFloat debug_LE (Float 1065353216) (zero_memory, writer_full) =
        Inl (Assert_capacity_ge_minimum_desired, (zero_memory, writer_full))
    \<and> returns (writeDouble debug_LE (Double 4607182418800017408) (zero_memory, writer8)) (\<lambda>(m', w'). position_m w' = 8)
    \<and> writeDouble debug_LE (Double 4607182418800017408) (zero_memory, writer_full) =
        Inl (Assert_capacity_ge_minimum_desired, (zero_memory, writer_full))
    \<and> returns (writeEnumInSingleByte debug_LE (- 3) (zero_memory, writer8)) (\<lambda>(m', w'). position_m w' = 1)
    \<and> writeEnumInSingleByte debug_LE (- 3) (zero_memory, writer_full) =
        Inl (Assert_capacity_ge_minimum_desired, (zero_memory, writer_full))
    \<and> returns (writeBinaryString debug_LE 8192 4 (zero_memory, writer8)) (\<lambda>(m', w'). position_m w' = 8)
    \<and> writeBinaryString debug_LE 8192 4 (zero_memory, writer_full) =
        Inl (Assert_capacity_ge_minimum_desired, (zero_memory, writer_full))
    \<and> returns (writeBytes debug_LE 8192 8 (zero_memory, writer8)) (\<lambda>(m', w'). position_m w' = 8)
    \<and> writeBytes debug_LE 8192 8 (zero_memory, writer_full) =
        Inl (Assert_capacity_ge_minimum_desired, (zero_memory, writer_full))
    \<and> returns (writeZeros debug_LE 8 (zero_memory, writer8)) (\<lambda>(m', w'). position_m w' = 8)
    \<and> writeZeros debug_LE 8 (zero_memory, writer_full) =
        Inl (Assert_capacity_ge_minimum_desired, (zero_memory, writer_full))
    \<and> returns (reserveBytes debug_LE 8 writer8) (\<lambda>(offset, w'). offset = 0 \<and> position_m w' = 8)
    \<and> reserveBytes debug_LE 8 writer_full = Inl (Assert_capacity_ge_minimum_desired, writer_full)"
proof -
  have hyps: "fits writer8 1" "fits writer8 2" "fits writer8 4" "fits writer8 8" "\<not> NDEBUG debug_LE" "overruns writer_full 1" "overruns writer_full 2" "overruns writer_full 4" "overruns writer_full 8" "- 128 \<le> sint (- 3 :: 32 word)" "sint (- 3 :: 32 word) \<le> 127"
    by (simp_all add: fits_def overruns_def writer8_def writer_full_def debug_LE_def)
  show ?thesis
    using hyps
      writer_capacity_check [of writer8 debug_LE 65 zero_memory "- 2" 513 42 "- 1" True "Float 1065353216" "Double 4607182418800017408" "- 3" 4 8192]
      writer_capacity_check [of writer8 debug_LE 65 zero_memory "- 2" 513 42 "- 1" True "Float 1065353216" "Double 4607182418800017408" "- 3" 8 8192]
      writer_capacity_check [of writer_full debug_LE 65 zero_memory "- 2" 513 42 "- 1" True "Float 1065353216" "Double 4607182418800017408" "- 3" 4 8192]
      writer_capacity_check [of writer_full debug_LE 65 zero_memory "- 2" 513 42 "- 1" True "Float 1065353216" "Double 4607182418800017408" "- 3" 8 8192]
    by (simp add: returns_def fits_def overruns_def writer8_def writer_full_def debug_LE_def)
qed

text \<open>
  C2 as stated fails: with \<^verbatim>\<open>NDEBUG\<close> the assertion is gone and the guard's body is empty, so
  an 8-byte write into a Writer of capacity 4 returns, with 4 bytes stored past the capacity
  and the cursor at 8.
\<close>

theorem writeLong_past_capacity_in_release:
  "writeLong release_LE 578437695752307201 (zero_memory, writer4) =
     Inr (store zero_memory 4096 [1, 2, 3, 4, 5, 6, 7, 8],
          \<lparr>buffer_m = 4096, position_m = 8, capacity_m = 4\<rparr>)"
proof -
  have "object_bytes release_LE (578437695752307201 :: 64 word) = [1, 2, 3, 4, 5, 6, 7, 8]"
    by (simp add: release_LE_def object_bytes_def sizeof_def word_bytes_numeral)
  then show ?thesis
    by (simp add: writeLong_def writePrimitive_release release_LE_def writer4_def sizeof_def)
qed

section \<open>The enum tag, size and position\<close>

lemma writeEnumInSingleByte_out_of_range:
  assumes "\<not> NDEBUG cfg" and "sint e < - 128 \<or> 127 < sint e"
  shows "writeEnumInSingleByte cfg e (m, w) =
        Inl (Assert_enum_fits_int8, (m, w))"
  using assms by (auto simp add: writeEnumInSingleByte_def assert_that_def and_then_def in_memory_def)

text \<open>
  C7, as the code has it. A tag within \<open>[-128, 127]\<close>, with a byte of capacity left, is written
  as the one byte holding it, and the position advances by 1. An out-of-range tag is caught
  by an assertion only: with assertions compiled in the process aborts there, with the memory
  and the Writer it was given (no byte written, the cursor where it was), and no
  \<^verbatim>\<open>ValueOutOfRange\<close> value exists.
\<close>

theorem enum_tag_write:
  "(fits w 1 \<and> - 128 \<le> sint e \<and> sint e \<le> 127 \<longrightarrow>
      writeEnumInSingleByte cfg e (m, w) =
        Inr (store m (buffer_m w + position_m w) [ucast e], w\<lparr>position_m := position_m w + 1\<rparr>)
      \<and> sint (ucast e :: 8 word) = sint e)
   \<and> (\<not> NDEBUG cfg \<and> (sint e < - 128 \<or> 127 < sint e) \<longrightarrow>
      writeEnumInSingleByte cfg e (m, w) =
        Inl (Assert_enum_fits_int8, (m, w)))"
  by (intro conjI impI;
      simp add: writeEnumInSingleByte_fits writeEnumInSingleByte_out_of_range object_bytes_byte
        sint_ucast_int8)

theorem enum_tag_write_witness:
  "fits writer8 1 \<and> - 128 \<le> sint (- 3 :: 32 word) \<and> sint (- 3 :: 32 word) \<le> 127
   \<and> writeEnumInSingleByte debug_LE (- 3) (zero_memory, writer8) =
        Inr (store zero_memory 4096 [253], \<lparr>buffer_m = 4096, position_m = 1, capacity_m = 8\<rparr>)
   \<and> sint (253 :: 8 word) = - 3
   \<and> \<not> NDEBUG debug_LE \<and> 127 < sint (300 :: 32 word)
   \<and> writeEnumInSingleByte debug_LE 300 (zero_memory, writer8) =
        Inl (Assert_enum_fits_int8, (zero_memory, writer8))"
proof -
  have hyps: "fits writer8 1" "- 128 \<le> sint (- 3 :: 32 word)" "sint (- 3 :: 32 word) \<le> 127"
    "\<not> NDEBUG debug_LE" "127 < sint (300 :: 32 word)"
    by (simp_all add: fits_def writer8_def debug_LE_def)
  have b: "(4294967293 :: 8 word) = 253"
    by simp
  show ?thesis
    using hyps enum_tag_write [of writer8 "- 3" debug_LE zero_memory]
      enum_tag_write [of writer8 300 debug_LE zero_memory]
    by (simp add: b writer8_def)
qed

text \<open>
  C7 as stated fails: with \<^verbatim>\<open>NDEBUG\<close> the tag 300 is not rejected; its low byte 44 is written
  and the position advances.
\<close>

theorem writeEnumInSingleByte_truncates_in_release:
  "writeEnumInSingleByte release_LE 300 (zero_memory, writer8) =
     Inr (store zero_memory 4096 [44], \<lparr>buffer_m = 4096, position_m = 1, capacity_m = 8\<rparr>)"
proof -
  have b: "(300 :: 8 word) = 44"
    by simp
  show ?thesis
    by (simp add: b writeEnumInSingleByte_def assert_that_def and_then_def in_memory_def writeByte_def
        writePrimitive_release release_LE_def writer8_def sizeof_def object_bytes_byte)
qed

lemma ExportSerializeOutput_new_returns:
  "ExportSerializeOutput_new cfg buf cap = Inr \<lparr>buffer_m = buf, position_m = 0, capacity_m = cap\<rparr>"
  by (simp add: ExportSerializeOutput_new_def assert_that_def and_then_def in_memory_def)

text \<open>
  C9. \<^verbatim>\<open>size()\<close> is the cursor and nothing more, and the position setter stores whatever it
  is given: a Writer that has reserved 8 of its 8 bytes reports size 0 after being set back
  to 0, and accepts a position beyond its capacity.
\<close>

theorem size_is_position:
  "size_out w = position w
   \<and> position (set_position pos w) = pos
   \<and> size_out (set_position pos w) = pos
   \<and> capacity_m (set_position pos w) = capacity_m w
   \<and> buffer_m (set_position pos w) = buffer_m w
   \<and> returns (and_then (ExportSerializeOutput_new cfg buf 8) (reserveBytes cfg 8))
        (\<lambda>(offset, w'). size_out w' = 8 \<and> size_out (set_position 0 w') = 0
           \<and> size_out (set_position 9 w') = 9 \<and> capacity_m (set_position 9 w') = 8)"
proof -
  have "fits \<lparr>buffer_m = buf, position_m = 0, capacity_m = 8\<rparr> (unat (8 :: size_t))"
    by (simp add: fits_def)
  then show ?thesis
    by (simp add: size_out_def position_def set_position_def ExportSerializeOutput_new_returns
        and_then_def in_memory_def returns_def reserveBytes_fits)
qed

section \<open>Back-patching\<close>

lemma load_4: "load m p 4 = [m p, m (p + 1), m (p + 2), m (p + 3)]"
proof -
  have "[0..<4] = [0, 1, 2, 3 :: nat]"
    by code_simp
  then show ?thesis
    by (simp add: load_def)
qed

lemma load_store_same_n:
  assumes "length bs = n" and "n \<le> 2 ^ 64"
  shows "load (store m p bs) p n = bs"
  using load_store_same [of bs m p] assms by simp

lemma load_store_disjoint:
  assumes "disjoint_ranges p (length bs) q k"
  shows "load (store m p bs) q k = load m q k"
proof (rule load_cong)
  fix i assume "i < k"
  then have "length bs \<le> unat (q + of_nat i - p)"
    using assms by (rule disjoint_ranges_outside [rotated])
  then show "store m p bs (q + of_nat i) = m (q + of_nat i)"
    by (rule store_outside)
qed

text \<open>
  C8. Back-patching in a Writer of capacity 8: reserve 4 bytes (offset 0, position 4), write
  4 bytes of downstream content (position 8), go back to the reserved offset, write the
  computed 32-bit value, and restore position 8. The buffer then holds the native encoding
  of the value in its first 4 bytes and the downstream content at offsets 4 to 7, and
  \<^verbatim>\<open>size()\<close> is 8.
\<close>

theorem back_patch:
  "returns (ExportSerializeOutput_new cfg buf 8) (\<lambda>w0.
     returns (reserveBytes cfg 4 w0) (\<lambda>(offset, w1).
       offset = 0 \<and> position w1 = 4 \<and>
       returns (writeInt cfg downstream (m, w1)) (\<lambda>(m2, w2).
         position w2 = 8 \<and>
         returns (writeInt cfg computed (m2, set_position offset w2)) (\<lambda>(m3, w3).
           load m3 (data w3) 4 = object_bytes cfg computed \<and>
           load m3 (data w3 + 4) 4 = object_bytes cfg downstream \<and>
           readInt cfg m3 (ExportSerializeInput_new (data w3) 8) =
             (computed, \<lparr>current_m = buf + 4, end_m = buf + 8\<rparr>) \<and>
           size_out (set_position 8 w3) = 8))))"
proof -
  let ?w0 = "\<lparr>buffer_m = buf, position_m = 0, capacity_m = 8\<rparr>"
  let ?w1 = "\<lparr>buffer_m = buf, position_m = 4, capacity_m = 8\<rparr>"
  let ?w2 = "\<lparr>buffer_m = buf, position_m = 8, capacity_m = 8\<rparr>"
  let ?m2 = "store m (buf + 4) (object_bytes cfg downstream)"
  let ?m3 = "store ?m2 buf (object_bytes cfg computed)"
  have new: "ExportSerializeOutput_new cfg buf 8 = Inr ?w0"
    by (rule ExportSerializeOutput_new_returns)
  have "fits ?w0 (unat (4 :: size_t))"
    by (simp add: fits_def)
  then have res: "reserveBytes cfg 4 ?w0 = Inr (0, ?w1)"
    by (simp add: reserveBytes_fits)
  have "fits ?w1 4"
    by (simp add: fits_def)
  then have wr1: "writeInt cfg downstream (m, ?w1) = Inr (?m2, ?w2)"
    by (simp add: writeInt_fits)
  have "fits ?w0 4"
    by (simp add: fits_def)
  then have wr2: "writeInt cfg computed (?m2, ?w0) = Inr (?m3, ?w1)"
    by (simp add: writeInt_fits)
  have len: "length (object_bytes cfg computed) = 4" "length (object_bytes cfg downstream) = 4"
    by (simp_all add: length_object_bytes sizeof_def)
  have first: "load ?m3 buf 4 = object_bytes cfg computed"
    by (rule load_store_same_n) (simp_all add: len)
  have "disjoint_ranges buf (length (object_bytes cfg computed)) (buf + 4) 4"
    by (simp add: disjoint_ranges_def len)
  then have "load ?m3 (buf + 4) 4 = load ?m2 (buf + 4) 4"
    by (rule load_store_disjoint)
  also have "\<dots> = object_bytes cfg downstream"
    by (rule load_store_same_n) (simp_all add: len)
  finally have second: "load ?m3 (buf + 4) 4 = object_bytes cfg downstream" .
  have rd: "readInt cfg ?m3 (ExportSerializeInput_new buf 8) =
      (computed, \<lparr>current_m = buf + 4, end_m = buf + 8\<rparr>)"
    by (simp add: readInt_def readPrimitive_store ExportSerializeInput_new_def)
  show ?thesis
    by (simp add: returns_def new res wr1 wr2 first second rd position_def data_def size_out_def
        set_position_def)
qed

section \<open>The bounds of the Reader\<close>

lemma room_advance:
  assumes "room r (unat n)"
  shows "current_m r + n \<le> end_m r"
proof -
  have "unat (end_m r) < 2 ^ 64"
    using unsigned_less [of "end_m r"] by simp
  with assms have "unat (current_m r) + unat n < 2 ^ 64"
    by (simp add: room_def)
  then have "unat (current_m r + n) = unat (current_m r) + unat n"
    by (rule unat_plus_no_wrap)
  with assms show ?thesis
    by (simp add: room_def word_le_nat_alt)
qed

lemma past_end_advance:
  assumes "past_end r (unat n)"
  shows "\<not> current_m r + n \<le> end_m r"
proof -
  from assms have "unat (current_m r) + unat n < 2 ^ 64"
    by (simp add: past_end_def)
  then have "unat (current_m r + n) = unat (current_m r) + unat n"
    by (rule unat_plus_no_wrap)
  with assms show ?thesis
    by (simp add: past_end_def word_le_nat_alt)
qed

lemma room_advance_nat:
  assumes "room r k" and "k < 2 ^ 64"
  shows "in_bounds (r\<lparr>current_m := current_m r + of_nat k\<rparr>)"
proof -
  from assms(2) have "unat (of_nat k :: size_t) = k"
    by (simp add: unat_of_nat)
  with assms(1) have "room r (unat (of_nat k :: size_t))"
    by simp
  then show ?thesis
    by (simp add: in_bounds_def room_advance)
qed

lemma readChar_cursor: "snd (readChar cfg m r) = r\<lparr>current_m := current_m r + 1\<rparr>"
  by (simp add: readChar_def  readPrimitive_def Let_def split_def)

lemma readByte_cursor: "snd (readByte cfg m r) = r\<lparr>current_m := current_m r + 1\<rparr>"
  by (simp add: readByte_def  readPrimitive_def Let_def split_def)

lemma readShort_cursor: "snd (readShort cfg m r) = r\<lparr>current_m := current_m r + 2\<rparr>"
  by (simp add: readShort_def  readPrimitive_def Let_def split_def)

lemma readInt_cursor: "snd (readInt cfg m r) = r\<lparr>current_m := current_m r + 4\<rparr>"
  by (simp add: readInt_def  readPrimitive_def Let_def split_def)

lemma readLong_cursor: "snd (readLong cfg m r) = r\<lparr>current_m := current_m r + 8\<rparr>"
  by (simp add: readLong_def  readPrimitive_def Let_def split_def)

lemma readBool_cursor: "snd (readBool cfg m r) = r\<lparr>current_m := current_m r + 1\<rparr>"
  by (simp add: readBool_def readByte_def readPrimitive_def Let_def split_def)

lemma readEnumInSingleByte_cursor: "snd (readEnumInSingleByte cfg m r) = r\<lparr>current_m := current_m r + 1\<rparr>"
  by (simp add: readEnumInSingleByte_def readByte_def readPrimitive_def Let_def split_def)

lemma readFloat_cursor: "snd (readFloat cfg m r) = r\<lparr>current_m := current_m r + 4\<rparr>"
  by (simp add: readFloat_def  readPrimitive_def Let_def split_def)

lemma readDouble_cursor: "snd (readDouble cfg m r) = r\<lparr>current_m := current_m r + 8\<rparr>"
  by (simp add: readDouble_def  readPrimitive_def Let_def split_def)

lemma getRawPointer_room:
  assumes "room r (unat n)"
  shows "getRawPointer cfg n r = Inr (current_m r, r\<lparr>current_m := current_m r + n\<rparr>)"
  using room_advance [OF assms]
  by (simp add: getRawPointer_def Let_def assert_that_def and_then_def in_memory_def)

lemma getRawPointer_past_end:
  assumes "\<not> NDEBUG cfg" and "past_end r (unat n)"
  shows "getRawPointer cfg n r =
        Inl (Assert_current_le_end, r\<lparr>current_m := current_m r + n\<rparr>)"
  using assms(1) past_end_advance [OF assms(2)]
  by (simp add: getRawPointer_def Let_def assert_that_def and_then_def in_memory_def)

lemma getRawPointer_release:
  assumes "NDEBUG cfg"
  shows "getRawPointer cfg n r = Inr (current_m r, r\<lparr>current_m := current_m r + n\<rparr>)"
  using assms by (simp add: getRawPointer_def Let_def assert_that_def and_then_def in_memory_def)

lemma scast_nonneg_int32:
  assumes "0 \<le> sint (v :: 32 word)"
  shows "unat (scast v :: size_t) = nat (sint v)"
proof -
  have "sint v < 2 ^ (LENGTH(32) - 1)"
    by (rule sint_lt)
  then have lt: "sint v < 2 ^ LENGTH(64)"
    by simp
  have "uint (scast v :: size_t) = sint v mod 2 ^ LENGTH(64)"
    by (simp only: scast_eq uint_word_of_int)
  also have "\<dots> = sint v"
    using assms lt by (rule mod_pos_pos_trivial)
  finally show ?thesis
    by (simp only: unat_eq_nat_uint)
qed

lemma std_string_nonneg:
  assumes "0 \<le> sint (v :: 32 word)"
  shows "std_string m p (scast v) s = Inr (load m p (nat (sint v)))"
proof -
  have n: "unat (scast v :: size_t) = nat (sint v)"
    using assms by (rule scast_nonneg_int32)
  have "sint v < 2 ^ (LENGTH(32) - 1)"
    by (rule sint_lt)
  then have "sint v < 2147483648"
    by simp
  then have small: "nat (sint v) < 2147483648"
    using assms by linarith
  have "string_max_size = 9223372036854775807"
    by (simp add: string_max_size_def)
  with small have "\<not> string_max_size < nat (sint v)"
    by linarith
  then show ?thesis
    by (simp only: std_string_def n if_False)
qed

lemma scast_negative_int32:
  assumes "sint (v :: 32 word) < 0"
  shows "unat (scast v :: size_t) = nat (sint v + 18446744073709551616)"
proof -
  have "- (2 ^ (LENGTH(32) - 1)) \<le> sint v"
    by (rule sint_ge)
  then have ge: "- 2147483648 \<le> sint v"
    by simp
  have p: "(2 :: int) ^ LENGTH(64) = 18446744073709551616"
    by simp
  have "uint (scast v :: size_t) = sint v mod 2 ^ LENGTH(64)"
    by (simp only: scast_eq uint_word_of_int)
  also have "\<dots> = sint v mod 18446744073709551616"
    by (simp only: p)
  also have "\<dots> = (sint v + 18446744073709551616) mod 18446744073709551616"
    by (rule mod_add_self2 [symmetric])
  also have "\<dots> = sint v + 18446744073709551616"
  proof (rule mod_pos_pos_trivial)
    show "0 \<le> sint v + 18446744073709551616"
      using ge by linarith
    show "sint v + 18446744073709551616 < 18446744073709551616"
      using assms by linarith
  qed
  finally show ?thesis
    by (simp only: unat_eq_nat_uint)
qed

lemma std_string_negative:
  assumes "sint (v :: 32 word) < 0"
  shows "std_string m p (scast v) s = Inl (Throw_std_length_error, s)"
proof -
  have n: "unat (scast v :: size_t) = nat (sint v + 18446744073709551616)"
    using assms by (rule scast_negative_int32)
  have "- (2 ^ (LENGTH(32) - 1)) \<le> sint v"
    by (rule sint_ge)
  then have ge: "- 2147483648 \<le> sint v"
    by simp
  have "string_max_size = 9223372036854775807"
    by (simp add: string_max_size_def)
  with ge have "string_max_size < nat (sint v + 18446744073709551616)"
    by linarith
  then show ?thesis
    by (simp only: std_string_def n if_True)
qed

lemma readInt_eq:
  "readInt cfg m r = (object_value cfg (load m (current_m r) 4), r\<lparr>current_m := current_m r + 4\<rparr>)"
  by (simp add: readInt_def readPrimitive_def Let_def)

lemma room_after_prefix:
  assumes "room r (4 + k)"
  shows "room (r\<lparr>current_m := current_m r + 4\<rparr>) k"
proof -
  have "unat (end_m r) < 2 ^ 64"
    using unsigned_less [of "end_m r"] by simp
  with assms have "unat (current_m r) + unat (4 :: size_t) < 2 ^ 64"
    by (simp add: room_def)
  then have "unat (current_m r + 4) = unat (current_m r) + unat (4 :: size_t)"
    by (rule unat_plus_no_wrap)
  with assms show ?thesis
    by (simp add: room_def)
qed

lemma past_end_after_prefix:
  assumes "past_end r (4 + k)"
  shows "past_end (r\<lparr>current_m := current_m r + 4\<rparr>) k"
proof -
  from assms have "unat (current_m r) + unat (4 :: size_t) < 2 ^ 64"
    by (simp add: past_end_def)
  then have "unat (current_m r + 4) = unat (current_m r) + unat (4 :: size_t)"
    by (rule unat_plus_no_wrap)
  with assms show ?thesis
    by (simp add: past_end_def)
qed

lemma text_cursor_in_bounds:
  assumes "0 \<le> sint (len :: 32 word)" and "room r (4 + nat (sint len))"
  shows "current_m r + 4 + scast len \<le> end_m r"
proof -
  let ?r1 = "r\<lparr>current_m := current_m r + 4\<rparr>"
  have n: "unat (scast len :: size_t) = nat (sint len)"
    using assms(1) by (rule scast_nonneg_int32)
  have "room ?r1 (unat (scast len :: size_t))"
    using assms(2) by (simp only: n room_after_prefix)
  then have "current_m ?r1 + scast len \<le> end_m ?r1"
    by (rule room_advance)
  then show ?thesis
    by simp
qed

lemma readTextString_negative:
  assumes "\<not> NDEBUG cfg" and "sint (fst (readInt cfg m r)) < 0"
  shows "readTextString cfg m r =
    Inl (Assert_stringLength_ge_0, r\<lparr>current_m := current_m r + 4\<rparr>)"
  using assms
  by (simp add: readTextString_def split_def assert_that_def and_then_def readInt_cursor)

lemma readTextString_room:
  assumes "0 \<le> sint (fst (readInt cfg m r))" and "room r (4 + nat (sint (fst (readInt cfg m r))))"
  shows "readTextString cfg m r =
    Inr (load m (current_m r + 4) (nat (sint (fst (readInt cfg m r)))),
         r\<lparr>current_m := current_m r + 4 + scast (fst (readInt cfg m r))\<rparr>)"
proof -
  let ?len = "fst (readInt cfg m r)"
  let ?r1 = "r\<lparr>current_m := current_m r + 4\<rparr>"
  have n: "unat (scast ?len :: size_t) = nat (sint ?len)"
    using assms(1) by (rule scast_nonneg_int32)
  have "room ?r1 (unat (scast ?len :: size_t))"
    using assms(2) by (simp only: n room_after_prefix)
  then have "getRawPointer cfg (scast ?len) ?r1 =
      Inr (current_m ?r1, ?r1\<lparr>current_m := current_m ?r1 + scast ?len\<rparr>)"
    by (rule getRawPointer_room)
  then show ?thesis
    using assms(1)
    by (simp add: readTextString_def split_def assert_that_def and_then_def readInt_cursor
        std_string_nonneg)
qed

lemma readTextString_past_end:
  assumes "\<not> NDEBUG cfg" and "0 \<le> sint (fst (readInt cfg m r))"
    and "past_end r (4 + nat (sint (fst (readInt cfg m r))))"
  shows "readTextString cfg m r =
        Inl (Assert_current_le_end,
             r\<lparr>current_m := current_m r + 4 + scast (fst (readInt cfg m r))\<rparr>)"
proof -
  let ?len = "fst (readInt cfg m r)"
  let ?r1 = "r\<lparr>current_m := current_m r + 4\<rparr>"
  have n: "unat (scast ?len :: size_t) = nat (sint ?len)"
    using assms(2) by (rule scast_nonneg_int32)
  have "past_end ?r1 (unat (scast ?len :: size_t))"
    using assms(3) by (simp only: n past_end_after_prefix)
  with assms(1) have "getRawPointer cfg (scast ?len) ?r1 =
      Inl (Assert_current_le_end, ?r1\<lparr>current_m := current_m ?r1 + scast ?len\<rparr>)"
    by (rule getRawPointer_past_end)
  then show ?thesis
    using assms(2)
    by (simp add: readTextString_def split_def assert_that_def and_then_def in_memory_def readInt_cursor)
qed

lemma readTextString_release:
  assumes "NDEBUG cfg"
  shows "readTextString cfg m r =
    (if sint (fst (readInt cfg m r)) < 0
     then Inl (Throw_std_length_error,
               r\<lparr>current_m := current_m r + 4 + scast (fst (readInt cfg m r))\<rparr>)
     else Inr (load m (current_m r + 4) (nat (sint (fst (readInt cfg m r)))),
               r\<lparr>current_m := current_m r + 4 + scast (fst (readInt cfg m r))\<rparr>))"
proof (cases "sint (fst (readInt cfg m r)) < 0")
  case True
  then show ?thesis
    using assms
    by (simp add: readTextString_def split_def assert_that_def and_then_def readInt_cursor
        getRawPointer_release std_string_negative)
next
  case False
  then have "0 \<le> sint (fst (readInt cfg m r))"
    by simp
  then show ?thesis
    using assms False
    by (simp add: readTextString_def split_def assert_that_def and_then_def readInt_cursor
        getRawPointer_release std_string_nonneg)
qed

lemma readBytes_room:
  assumes "room r (unat n)"
  shows "readBytes cfg dst n (m, r) =
    Inr (memcpy m dst (current_m r) n, r\<lparr>current_m := current_m r + n\<rparr>)"
  using assms by (simp add: readBytes_def getRawPointer_room and_then_def in_memory_def)

lemma readBytes_past_end:
  assumes "\<not> NDEBUG cfg" and "past_end r (unat n)"
  shows "readBytes cfg dst n (m, r) =
        Inl (Assert_current_le_end, (m, r\<lparr>current_m := current_m r + n\<rparr>))"
  using assms by (simp add: readBytes_def getRawPointer_past_end and_then_def in_memory_def)

lemma room_in_bounds_numeral:
  assumes "room r (unat n)"
  shows "in_bounds (r\<lparr>current_m := current_m r + n\<rparr>)"
  using room_advance [OF assms] by (simp add: in_bounds_def)

text \<open>
  C4, as the code has it. A read whose width fits in the bytes that remain
  (\<open>current + width \<le> end\<close>) completes and leaves \<open>current \<le> end\<close>, for every fixed-width read,
  \<^verbatim>\<open>getRawPointer\<close>, \<^verbatim>\<open>readBytes\<close> and \<^verbatim>\<open>readTextString\<close>. With assertions compiled in,
  \<^verbatim>\<open>getRawPointer\<close>, \<^verbatim>\<open>readBytes\<close> and \<^verbatim>\<open>readTextString\<close> abort at \<^verbatim>\<open>assert(current_ <= end_)\<close>
  when their advance would pass the end (within the address space). No read returns an
  error value.
\<close>

theorem reader_stays_in_bounds:
  "(room r 1 \<longrightarrow> in_bounds (snd (readChar cfg m r)) \<and> end_m (snd (readChar cfg m r)) = end_m r
        \<and> current_m (snd (readChar cfg m r)) = current_m r + 1)
    \<and> (room r 1 \<longrightarrow> in_bounds (snd (readByte cfg m r)) \<and> end_m (snd (readByte cfg m r)) = end_m r
        \<and> current_m (snd (readByte cfg m r)) = current_m r + 1)
    \<and> (room r 2 \<longrightarrow> in_bounds (snd (readShort cfg m r)) \<and> end_m (snd (readShort cfg m r)) = end_m r
        \<and> current_m (snd (readShort cfg m r)) = current_m r + 2)
    \<and> (room r 4 \<longrightarrow> in_bounds (snd (readInt cfg m r)) \<and> end_m (snd (readInt cfg m r)) = end_m r
        \<and> current_m (snd (readInt cfg m r)) = current_m r + 4)
    \<and> (room r 8 \<longrightarrow> in_bounds (snd (readLong cfg m r)) \<and> end_m (snd (readLong cfg m r)) = end_m r
        \<and> current_m (snd (readLong cfg m r)) = current_m r + 8)
    \<and> (room r 1 \<longrightarrow> in_bounds (snd (readBool cfg m r)) \<and> end_m (snd (readBool cfg m r)) = end_m r
        \<and> current_m (snd (readBool cfg m r)) = current_m r + 1)
    \<and> (room r 1 \<longrightarrow> in_bounds (snd (readEnumInSingleByte cfg m r)) \<and> end_m (snd (readEnumInSingleByte cfg m r)) = end_m r
        \<and> current_m (snd (readEnumInSingleByte cfg m r)) = current_m r + 1)
    \<and> (room r 4 \<longrightarrow> in_bounds (snd (readFloat cfg m r)) \<and> end_m (snd (readFloat cfg m r)) = end_m r
        \<and> current_m (snd (readFloat cfg m r)) = current_m r + 4)
    \<and> (room r 8 \<longrightarrow> in_bounds (snd (readDouble cfg m r)) \<and> end_m (snd (readDouble cfg m r)) = end_m r
        \<and> current_m (snd (readDouble cfg m r)) = current_m r + 8)
    \<and> (room r (unat n) \<longrightarrow> getRawPointer cfg n r = Inr (current_m r, r\<lparr>current_m := current_m r + n\<rparr>)
        \<and> in_bounds (r\<lparr>current_m := current_m r + n\<rparr>))
    \<and> (\<not> NDEBUG cfg \<and> past_end r (unat n) \<longrightarrow> getRawPointer cfg n r =
        Inl (Assert_current_le_end, r\<lparr>current_m := current_m r + n\<rparr>))
    \<and> (room r (unat n) \<longrightarrow>
        returns (readBytes cfg dst n (m, r)) (\<lambda>(m', r'). in_bounds r' \<and> end_m r' = end_m r))
    \<and> (\<not> NDEBUG cfg \<and> past_end r (unat n) \<longrightarrow> readBytes cfg dst n (m, r) =
        Inl (Assert_current_le_end, (m, r\<lparr>current_m := current_m r + n\<rparr>)))
    \<and> (0 \<le> sint (fst (readInt cfg m r)) \<and> room r (4 + nat (sint (fst (readInt cfg m r)))) \<longrightarrow>
        returns (readTextString cfg m r)
          (\<lambda>(s, r'). in_bounds r' \<and> end_m r' = end_m r \<and> length s = nat (sint (fst (readInt cfg m r)))))
    \<and> (\<not> NDEBUG cfg \<and> 0 \<le> sint (fst (readInt cfg m r)) \<and> past_end r (4 + nat (sint (fst (readInt cfg m r)))) \<longrightarrow>
        readTextString cfg m r =
        Inl (Assert_current_le_end,
             r\<lparr>current_m := current_m r + 4 + scast (fst (readInt cfg m r))\<rparr>))"
proof -
  have prim: "room r k \<Longrightarrow> k < 2 ^ 64 \<Longrightarrow> in_bounds (r\<lparr>current_m := current_m r + of_nat k\<rparr>)" for k
    by (rule room_advance_nat)
  show ?thesis
    using prim [of 1] prim [of 2] prim [of 4] prim [of 8]
    by (intro conjI impI;
        simp add: readChar_cursor readByte_cursor readShort_cursor readInt_cursor readLong_cursor readBool_cursor readEnumInSingleByte_cursor readFloat_cursor readDouble_cursor getRawPointer_room getRawPointer_past_end readBytes_room
          readBytes_past_end readTextString_room readTextString_past_end readTextString_negative
          room_in_bounds_numeral returns_def length_load;
        simp add: in_bounds_def text_cursor_in_bounds)
qed

lemma text_memory_prefix:
  "fst (readInt debug_LE text_memory \<lparr>current_m = 4096, end_m = e\<rparr>) = 4"
  by (simp add: readInt_eq load_4 text_memory_def store_def
      object_value_def debug_LE_def)

theorem reader_stays_in_bounds_witness:
  "room (ExportSerializeInput_new 4096 8) 1
    \<and> room (ExportSerializeInput_new 4096 8) 2
    \<and> room (ExportSerializeInput_new 4096 8) 4
    \<and> room (ExportSerializeInput_new 4096 8) 8
    \<and> \<not> NDEBUG debug_LE
    \<and> past_end (ExportSerializeInput_new 4096 6) 8
    \<and> fst (readInt debug_LE text_memory (ExportSerializeInput_new 4096 8)) = 4
    \<and> fst (readInt debug_LE text_memory (ExportSerializeInput_new 4096 6)) = 4
    \<and> in_bounds (snd (readChar debug_LE text_memory (ExportSerializeInput_new 4096 8)))
    \<and> in_bounds (snd (readByte debug_LE text_memory (ExportSerializeInput_new 4096 8)))
    \<and> in_bounds (snd (readShort debug_LE text_memory (ExportSerializeInput_new 4096 8)))
    \<and> in_bounds (snd (readInt debug_LE text_memory (ExportSerializeInput_new 4096 8)))
    \<and> in_bounds (snd (readLong debug_LE text_memory (ExportSerializeInput_new 4096 8)))
    \<and> in_bounds (snd (readBool debug_LE text_memory (ExportSerializeInput_new 4096 8)))
    \<and> in_bounds (snd (readEnumInSingleByte debug_LE text_memory (ExportSerializeInput_new 4096 8)))
    \<and> in_bounds (snd (readFloat debug_LE text_memory (ExportSerializeInput_new 4096 8)))
    \<and> in_bounds (snd (readDouble debug_LE text_memory (ExportSerializeInput_new 4096 8)))
    \<and> getRawPointer debug_LE 8 (ExportSerializeInput_new 4096 8) = Inr (4096, \<lparr>current_m = 4104, end_m = 4104\<rparr>)
    \<and> getRawPointer debug_LE 8 (ExportSerializeInput_new 4096 6) =
        Inl (Assert_current_le_end, \<lparr>current_m = 4104, end_m = 4102\<rparr>)
    \<and> returns (readBytes debug_LE 8192 8 (text_memory, (ExportSerializeInput_new 4096 8)))
         (\<lambda>(m', r'). in_bounds r' \<and> end_m r' = 4104)
    \<and> readBytes debug_LE 8192 8 (text_memory, (ExportSerializeInput_new 4096 6)) =
        Inl (Assert_current_le_end, (text_memory, \<lparr>current_m = 4104, end_m = 4102\<rparr>))
    \<and> returns (readTextString debug_LE text_memory (ExportSerializeInput_new 4096 8))
         (\<lambda>(s, r'). in_bounds r' \<and> end_m r' = 4104 \<and> length s = 4)
    \<and> readTextString debug_LE text_memory (ExportSerializeInput_new 4096 6) =
        Inl (Assert_current_le_end, \<lparr>current_m = 4104, end_m = 4102\<rparr>)"
proof -
  have len: "fst (readInt debug_LE text_memory (ExportSerializeInput_new 4096 8)) = 4"
    "fst (readInt debug_LE text_memory (ExportSerializeInput_new 4096 6)) = 4"
    by (simp_all add: ExportSerializeInput_new_def text_memory_prefix)
  have hyps: "room (ExportSerializeInput_new 4096 8) 1" "room (ExportSerializeInput_new 4096 8) 2" "room (ExportSerializeInput_new 4096 8) 4" "room (ExportSerializeInput_new 4096 8) 8"
    "\<not> NDEBUG debug_LE" "past_end (ExportSerializeInput_new 4096 6) 8"
    by (simp_all add: room_def past_end_def ExportSerializeInput_new_def debug_LE_def)
  show ?thesis
    using len hyps
      reader_stays_in_bounds [of "ExportSerializeInput_new 4096 8" debug_LE text_memory 8 8192]
      reader_stays_in_bounds [of "ExportSerializeInput_new 4096 6" debug_LE text_memory 8 8192]
    by (simp add: ExportSerializeInput_new_def returns_def split_def text_memory_prefix)
qed

text \<open>
  C4 as stated fails: \<^verbatim>\<open>readPrimitive\<close> checks nothing, in any build. A 4-byte read from a
  Reader over 2 bytes returns and leaves the cursor 2 bytes past the end.
\<close>

theorem readInt_past_end:
  "readInt debug_LE zero_memory (ExportSerializeInput_new 4096 2) =
     (0, \<lparr>current_m = 4100, end_m = 4098\<rparr>)
   \<and> \<not> in_bounds \<lparr>current_m = 4100, end_m = 4098\<rparr>"
  by (simp add: readInt_eq ExportSerializeInput_new_def load_4 zero_memory_def object_value_def
      debug_LE_def in_bounds_def)

lemma readTextString_negative_length:
  assumes "sint (fst (readInt cfg m r)) < 0"
  shows "readTextString cfg m r =
    (if NDEBUG cfg
     then Inl (Throw_std_length_error,
               r\<lparr>current_m := current_m r + 4 + scast (fst (readInt cfg m r))\<rparr>)
     else Inl (Assert_stringLength_ge_0, r\<lparr>current_m := current_m r + 4\<rparr>))"
  using assms by (simp add: readTextString_release readTextString_negative)

lemma readInt_same_prefix:
  assumes "load m' (current_m r) 4 = load m (current_m r) 4"
  shows "readInt cfg m' r = readInt cfg m r"
  using assms by (simp add: readInt_eq)

lemma negative_length_memory_prefix:
  "fst (readInt cfg0 negative_length_memory \<lparr>current_m = 4096, end_m = e\<rparr>) = - 8"
  if "cfg0 = debug_LE \<or> cfg0 = release_LE"
proof -
  have "(4294967288 :: 32 word) = - 8"
    by simp
  with that show ?thesis
    by (auto simp add: readInt_eq load_4 negative_length_memory_def
        store_def object_value_def debug_LE_def release_LE_def)
qed

lemma negative_length_memory'_prefix:
  "load negative_length_memory' 4096 4 = load negative_length_memory 4096 4"
  by (simp add: load_4 negative_length_memory'_def store_def unsigned_minus_1_eq_mask
      mask_eq_exp_minus_1)

text \<open>
  C5, as the code has it. When the next 4 bytes decode to a negative 32-bit number,
  \<^verbatim>\<open>readTextString\<close> never returns a string, and its outcome is the same for every memory with
  these 4 bytes: no payload byte is read. With assertions compiled in, the process aborts at
  \<^verbatim>\<open>assert(stringLength >= 0)\<close> with the cursor just past the prefix, \<^verbatim>\<open>getRawPointer\<close> not yet
  called. No \<^verbatim>\<open>InvalidLength\<close> value exists.
\<close>

theorem negative_length_aborts:
  assumes "sint (fst (readInt cfg m r)) < 0"
  shows "isl (readTextString cfg m r)
    \<and> (load m' (current_m r) 4 = load m (current_m r) 4 \<longrightarrow>
         readTextString cfg m' r = readTextString cfg m r)
    \<and> (\<not> NDEBUG cfg \<longrightarrow>
         readTextString cfg m r =
           Inl (Assert_stringLength_ge_0, r\<lparr>current_m := current_m r + 4\<rparr>))"
proof (intro conjI impI)
  show "isl (readTextString cfg m r)"
    by (simp add: readTextString_negative_length [OF assms])
  show "readTextString cfg m' r = readTextString cfg m r"
    if same: "load m' (current_m r) 4 = load m (current_m r) 4"
  proof -
    have rd: "readInt cfg m' r = readInt cfg m r"
      using same by (rule readInt_same_prefix)
    then have "sint (fst (readInt cfg m' r)) < 0"
      using assms by simp
    then show ?thesis
      by (simp add: readTextString_negative_length assms rd)
  qed
  show "readTextString cfg m r =
      Inl (Assert_stringLength_ge_0, r\<lparr>current_m := current_m r + 4\<rparr>)"
    if "\<not> NDEBUG cfg"
    using that assms by (rule readTextString_negative)
qed

theorem negative_length_aborts_witness:
  "sint (fst (readInt debug_LE negative_length_memory (ExportSerializeInput_new 4096 4))) < 0
   \<and> isl (readTextString debug_LE negative_length_memory (ExportSerializeInput_new 4096 4))
   \<and> load negative_length_memory' (current_m (ExportSerializeInput_new 4096 4)) 4 =
       load negative_length_memory (current_m (ExportSerializeInput_new 4096 4)) 4
   \<and> readTextString debug_LE negative_length_memory' (ExportSerializeInput_new 4096 4) =
       readTextString debug_LE negative_length_memory (ExportSerializeInput_new 4096 4)
   \<and> \<not> NDEBUG debug_LE
   \<and> readTextString debug_LE negative_length_memory (ExportSerializeInput_new 4096 4) =
       Inl (Assert_stringLength_ge_0, \<lparr>current_m = 4100, end_m = 4100\<rparr>)"
proof -
  have a: "\<not> NDEBUG debug_LE"
    by (simp add: debug_LE_def)
  have b: "sint (fst (readInt debug_LE negative_length_memory (ExportSerializeInput_new 4096 4))) < 0"
    by (simp add: ExportSerializeInput_new_def negative_length_memory_prefix)
  have c: "load negative_length_memory' (current_m (ExportSerializeInput_new 4096 4)) 4 =
      load negative_length_memory (current_m (ExportSerializeInput_new 4096 4)) 4"
    by (simp add: ExportSerializeInput_new_def negative_length_memory'_prefix)
  have d: "(ExportSerializeInput_new 4096 4)\<lparr>current_m := current_m (ExportSerializeInput_new 4096 4) + 4\<rparr>
      = \<lparr>current_m = 4100, end_m = 4100\<rparr>"
    by (simp add: ExportSerializeInput_new_def)
  show ?thesis
    using a b c negative_length_aborts [OF b, of negative_length_memory']
    by (simp add: d)
qed

text \<open>
  C5 as stated fails: with \<^verbatim>\<open>NDEBUG\<close> the length \<open>-8\<close> is never examined. \<^verbatim>\<open>getRawPointer\<close> takes
  it as a \<^verbatim>\<open>size_t\<close> and moves the cursor from 4100 to 4092, before the start of the buffer at
  4096, and what ends the call is \<^verbatim>\<open>std::length_error\<close>, thrown by the \<^verbatim>\<open>std::string\<close>
  constructor for the count \<open>2 ^ 64 - 8\<close>: not a report of the invalid length, and the Reader
  is left with its cursor outside the buffer.
\<close>

theorem readTextString_negative_length_in_release:
  "readTextString release_LE negative_length_memory (ExportSerializeInput_new 4096 4) =
     Inl (Throw_std_length_error, \<lparr>current_m = 4092, end_m = 4100\<rparr>)
   \<and> (4092 :: addr) < 4096"
proof -
  have len: "fst (readInt release_LE negative_length_memory \<lparr>current_m = 4096, end_m = 4100\<rparr>) = - 8"
    by (simp add: negative_length_memory_prefix)
  have neg: "sint (fst (readInt release_LE negative_length_memory
      \<lparr>current_m = 4096, end_m = 4100\<rparr>)) < 0"
    by (simp add: len)
  have sc: "(scast (- 8 :: 32 word) :: size_t) = - 8"
    by simp
  have rel: "NDEBUG release_LE"
    by (simp add: release_LE_def)
  show ?thesis
    using readTextString_negative_length [OF neg]
    by (simp add: rel len sc ExportSerializeInput_new_def)
qed

section \<open>Rewinding\<close>

lemma unread_within:
  assumes "start \<le> current_m r" and "unat b \<le> unat (current_m r) - unat start"
  shows "start \<le> current_m (unread b r) \<and> current_m (unread b r) \<le> current_m r"
proof -
  have "unat b \<le> unat (current_m r)"
    using assms(2) by simp
  then have "b \<le> current_m r"
    by (simp add: word_le_nat_alt)
  then have "unat (current_m r - b) = unat (current_m r) - unat b"
    by (rule unat_sub)
  moreover have "unat start \<le> unat (current_m r)"
    using assms(1) by (simp add: word_le_nat_alt)
  ultimately show ?thesis
    using assms(2) by (simp add: unread_def word_le_nat_alt)
qed

text \<open>
  C6, as the code has it. \<^verbatim>\<open>unread\<close> subtracts the amount from the cursor and returns, with
  no validation in any build and nothing reported. The cursor stays within the buffer when
  the amount is at most the number of bytes consumed since the start; reading a 4-byte
  integer, rewinding by 4 and reading again gives the same result.
\<close>

theorem unread_moves_back:
  "end_m (unread b r) = end_m r
   \<and> current_m (unread b r) = current_m r - b
   \<and> (start \<le> current_m r \<and> unat b \<le> unat (current_m r) - unat start \<longrightarrow>
        start \<le> current_m (unread b r) \<and> current_m (unread b r) \<le> current_m r)
   \<and> readInt cfg m (unread 4 (snd (readInt cfg m r))) = readInt cfg m r"
proof (intro conjI impI)
  show "end_m (unread b r) = end_m r"
    by (simp add: unread_def)
  show "current_m (unread b r) = current_m r - b"
    by (simp add: unread_def)
  show "start \<le> current_m (unread b r)"
    if "start \<le> current_m r \<and> unat b \<le> unat (current_m r) - unat start"
    using that unread_within [of start r b] by simp
  show "current_m (unread b r) \<le> current_m r"
    if "start \<le> current_m r \<and> unat b \<le> unat (current_m r) - unat start"
    using that unread_within [of start r b] by simp
  show "readInt cfg m (unread 4 (snd (readInt cfg m r))) = readInt cfg m r"
    by (simp add: readInt_eq unread_def)
qed

theorem unread_moves_back_witness:
  "(4096 :: addr) \<le> current_m \<lparr>current_m = 4100, end_m = 4104\<rparr>
   \<and> unat (4 :: size_t) \<le> unat (current_m \<lparr>current_m = 4100, end_m = 4104\<rparr>) - unat (4096 :: addr)
   \<and> unread 4 \<lparr>current_m = 4100, end_m = 4104\<rparr> = \<lparr>current_m = 4096, end_m = 4104\<rparr>
   \<and> (4096 :: addr) \<le> current_m (unread 4 \<lparr>current_m = 4100, end_m = 4104\<rparr>)"
  using unread_moves_back [of 4 "\<lparr>current_m = 4100, end_m = 4104\<rparr>" 4096 debug_LE zero_memory]
  by (simp add: unread_def)

text \<open>
  C6 as stated fails: rewinding a fresh Reader over the 4 bytes at 4096 by one byte returns
  with the cursor at 4095, before the start of the buffer.
\<close>

theorem unread_before_start:
  "unread 1 (ExportSerializeInput_new 4096 4) = \<lparr>current_m = 4095, end_m = 4100\<rparr>"
  by (simp add: unread_def ExportSerializeInput_new_def)

section \<open>Length-prefixed strings\<close>

lemma sint_ucast_size_t:
  assumes "unat (n :: size_t) < 2 ^ 31"
  shows "sint (ucast n :: 32 word) = int (unat n)"
proof -
  have "int (unat n) < int (2 ^ 31)"
    using assms by (simp only: of_nat_less_iff)
  then have lt: "uint n < 2 ^ 31"
    by (simp only: uint_nat of_nat_power of_nat_numeral)
  have "(0 :: int) \<le> 2 ^ 31"
    by simp
  then have ge: "- (2 ^ 31) \<le> uint n"
    using uint_ge_0 [of n] by linarith
  have "sint (ucast n :: 32 word) = signed_take_bit 31 (uint n)"
    by transfer (simp add: signed_take_bit_take_bit)
  also have "\<dots> = uint n"
    using ge lt by (rule signed_take_bit_int_eq_self)
  also have "\<dots> = int (unat n)"
    by (simp only: uint_nat)
  finally show ?thesis .
qed

lemma scast_ucast_size_t:
  assumes "unat (n :: size_t) < 2 ^ 31"
  shows "(scast (ucast n :: 32 word) :: size_t) = n"
proof -
  have "(scast (ucast n :: 32 word) :: size_t) = word_of_int (sint (ucast n :: 32 word))"
    by (simp only: scast_eq)
  also have "\<dots> = word_of_int (int (unat n))"
    by (simp only: sint_ucast_size_t [OF assms])
  also have "\<dots> = n"
    by simp
  finally show ?thesis .
qed

lemma disjoint_ranges_shrink:
  assumes "disjoint_ranges p n q k" and "n' \<le> n"
  shows "disjoint_ranges p n' q k"
  using assms by (simp add: disjoint_ranges_def)

lemma disjoint_after_prefix:
  assumes "n \<le> 2 ^ 64 - 4"
  shows "disjoint_ranges (p + 4) n p 4"
proof -
  have "unat (- 4 :: addr) = 2 ^ 64 - 4"
    by (simp add: unat_eq_nat_uint uint_word_ariths)
  then show ?thesis
    using assms by (simp add: disjoint_ranges_def)
qed

lemma fits_position_advance:
  assumes "fits w (unat (n :: size_t) + 4)"
  shows "unat (position_m w + (4 + n)) = unat (position_m w) + unat n + 4"
proof -
  have cap: "unat (capacity_m w) < 2 ^ 64"
    using unsigned_less [of "capacity_m w"] by simp
  with assms have a: "unat (4 :: size_t) + unat n < 2 ^ 64"
    by (simp add: fits_def)
  then have b: "unat (4 + n) = unat (4 :: size_t) + unat n"
    by (rule unat_plus_no_wrap)
  from assms cap have "unat (position_m w) + unat (4 + n) < 2 ^ 64"
    by (simp add: b fits_def)
  then have "unat (position_m w + (4 + n)) = unat (position_m w) + unat (4 + n)"
    by (rule unat_plus_no_wrap)
  then show ?thesis
    by (simp add: b)
qed

lemma writeBinaryString_memory:
  assumes small: "unat (n :: size_t) < 2 ^ 31"
    and disj: "disjoint_ranges dst (unat n + 4) src (unat n)"
    and m'_def: "m' = memcpy (store m dst (object_bytes cfg (ucast n :: 32 word))) (dst + 4) src n"
  shows "load m' dst 4 = object_bytes cfg (ucast n :: 32 word)"
    and "load m' (dst + 4) (unat n) = load m src (unat n)"
proof -
  let ?L = "object_bytes cfg (ucast n :: 32 word)"
  let ?m1 = "store m dst ?L"
  have lenL: "length ?L = 4"
    by (simp add: length_object_bytes sizeof_def)
  have "disjoint_ranges dst (length ?L) src (unat n)"
    using disj by (rule disjoint_ranges_shrink) (simp add: lenL)
  then have src: "load ?m1 src (unat n) = load m src (unat n)"
    by (rule load_store_disjoint)
  have m': "m' = store ?m1 (dst + 4) (load m src (unat n))"
    by (simp add: m'_def memcpy_def src)
  have "unat n < 2 ^ 64"
    using unsigned_less [of n] by simp
  then have n64: "unat n \<le> 2 ^ 64"
    by (rule less_imp_le)
  show "load m' (dst + 4) (unat n) = load m src (unat n)"
    unfolding m' by (rule load_store_same_n [OF _ n64]) (simp add: length_load)
  have "(2 :: nat) ^ 31 \<le> 2 ^ 64 - 4"
    by simp
  with small have "unat n \<le> 2 ^ 64 - 4"
    by (rule less_imp_le [OF less_le_trans])
  then have "disjoint_ranges (dst + 4) (length (load m src (unat n))) dst 4"
    by (simp add: length_load disjoint_after_prefix)
  then have "load m' dst 4 = load ?m1 dst 4"
    unfolding m' by (rule load_store_disjoint)
  also have "\<dots> = ?L"
    by (rule load_store_same_n) (simp_all add: lenL)
  finally show "load m' dst 4 = ?L" .
qed

lemma object_value_load_written:
  assumes "load m' dst 4 = object_bytes cfg (v :: 32 word)"
  shows "(object_value cfg (load m' dst 4) :: 32 word) = v"
  by (simp add: assms object_value_object_bytes)

text \<open>
  C3, as the code has it. For a byte sequence of length \<open>N \<le> 2 ^ 31 - 1\<close> (enough capacity;
  the source bytes apart from the destination, as \<^verbatim>\<open>memcpy\<close> requires; the Reader's range
  covering the \<open>N + 4\<close> bytes), \<^verbatim>\<open>writeBinaryString\<close> writes a 32-bit signed length equal to \<open>N\<close>
  and then the \<open>N\<close> bytes, advancing the position by \<open>N + 4\<close>; \<^verbatim>\<open>readTextString\<close> at the same
  address gives back exactly those \<open>N\<close> bytes.
\<close>

theorem length_prefix_round_trip:
  assumes small: "unat n < 2 ^ 31"
    and fit: "fits w (unat n + 4)"
    and disj: "disjoint_ranges (buffer_m w + position_m w) (unat n + 4) src (unat n)"
    and cur: "current_m r = buffer_m w + position_m w"
    and room: "room r (unat n + 4)"
  shows "returns (writeBinaryString cfg src n (m, w)) (\<lambda>(m', w').
      unat (position_m w') = unat (position_m w) + unat n + 4
      \<and> sint (object_value cfg (load m' (buffer_m w + position_m w) 4) :: 32 word) = int (unat n)
      \<and> load m' (buffer_m w + position_m w + 4) (unat n) = load m src (unat n)
      \<and> returns (readTextString cfg m' r) (\<lambda>(s, r').
            s = load m src (unat n) \<and> length s = unat n
            \<and> current_m r' = current_m r + 4 + n))"
proof -
  let ?dst = "buffer_m w + position_m w"
  let ?m' = "memcpy (store m ?dst (object_bytes cfg (ucast n :: 32 word))) (?dst + 4) src n"
  have wr: "writeBinaryString cfg src n (m, w) =
      Inr (?m', w\<lparr>position_m := position_m w + (4 + n)\<rparr>)"
    using fit by (rule writeBinaryString_fits)
  have pos: "unat (position_m w + (4 + n)) = unat (position_m w) + unat n + 4"
    using fit by (rule fits_position_advance)
  have field: "load ?m' ?dst 4 = object_bytes cfg (ucast n :: 32 word)"
    and payload: "load ?m' (?dst + 4) (unat n) = load m src (unat n)"
    using small disj by (rule writeBinaryString_memory [OF _ _ refl])+
  have len: "(object_value cfg (load ?m' ?dst 4) :: 32 word) = ucast n"
    using field by (rule object_value_load_written)
  have sint_len: "sint (ucast n :: 32 word) = int (unat n)"
    using small by (rule sint_ucast_size_t)
  have rd: "fst (readInt cfg ?m' r) = ucast n"
    by (simp add: readInt_eq cur len)
  have nonneg: "0 \<le> sint (fst (readInt cfg ?m' r))"
    by (simp add: rd sint_len)
  have width: "4 + nat (sint (fst (readInt cfg ?m' r))) = unat n + 4"
    by (simp add: rd sint_len)
  have room': "room r (4 + nat (sint (fst (readInt cfg ?m' r))))"
    using room by (simp only: width)
  have rts: "readTextString cfg ?m' r =
      Inr (load ?m' (current_m r + 4) (nat (sint (fst (readInt cfg ?m' r)))),
           r\<lparr>current_m := current_m r + 4 + scast (fst (readInt cfg ?m' r))\<rparr>)"
    using nonneg room' by (rule readTextString_room)
  have rts': "readTextString cfg ?m' r =
      Inr (load m src (unat n), r\<lparr>current_m := current_m r + 4 + n\<rparr>)"
    by (simp add: rts rd sint_len scast_ucast_size_t [OF small] cur payload)
  show ?thesis
    by (simp add: returns_def wr pos len sint_len payload rts' length_load)
qed

lemma load_5: "load m p 5 = [m p, m (p + 1), m (p + 2), m (p + 3), m (p + 4)]"
proof -
  have "[0..<5] = [0, 1, 2, 3, 4 :: nat]"
    by code_simp
  then show ?thesis
    by (simp add: load_def)
qed

theorem length_prefix_round_trip_witness:
  "unat (5 :: size_t) < 2 ^ 31
   \<and> fits writer9 (unat (5 :: size_t) + 4)
   \<and> disjoint_ranges (buffer_m writer9 + position_m writer9) (unat (5 :: size_t) + 4) 8192
        (unat (5 :: size_t))
   \<and> current_m (ExportSerializeInput_new 4096 9) = buffer_m writer9 + position_m writer9
   \<and> room (ExportSerializeInput_new 4096 9) (unat (5 :: size_t) + 4)
   \<and> load hello_memory 8192 5 = [104, 101, 108, 108, 111]
   \<and> returns (writeBinaryString debug_LE 8192 5 (hello_memory, writer9)) (\<lambda>(m', w').
        unat (position_m w') = 9
        \<and> sint (object_value debug_LE (load m' 4096 4) :: 32 word) = 5
        \<and> load m' 4100 5 = [104, 101, 108, 108, 111]
        \<and> returns (readTextString debug_LE m' (ExportSerializeInput_new 4096 9)) (\<lambda>(s, r').
              s = [104, 101, 108, 108, 111] \<and> length s = 5 \<and> current_m r' = 4105))"
proof -
  have small: "unat (5 :: size_t) < 2 ^ 31"
    by simp
  have fit: "fits writer9 (unat (5 :: size_t) + 4)"
    by (simp add: fits_def writer9_def)
  have disj: "disjoint_ranges (buffer_m writer9 + position_m writer9) (unat (5 :: size_t) + 4) 8192
      (unat (5 :: size_t))"
    by (simp add: disjoint_ranges_def writer9_def)
  have cur: "current_m (ExportSerializeInput_new 4096 9) = buffer_m writer9 + position_m writer9"
    by (simp add: ExportSerializeInput_new_def writer9_def)
  have room: "room (ExportSerializeInput_new 4096 9) (unat (5 :: size_t) + 4)"
    by (simp add: room_def ExportSerializeInput_new_def)
  have hello: "load hello_memory 8192 5 = [104, 101, 108, 108, 111]"
    by (simp add: load_5 hello_memory_def store_def)
  have pos: "position_m writer9 = 0" "buffer_m writer9 = 4096"
    by (simp_all add: writer9_def)
  show ?thesis
    using small fit disj cur room hello
      length_prefix_round_trip [OF small fit disj cur room, of debug_LE hello_memory]
    by (simp add: pos ExportSerializeInput_new_def)
qed

text \<open>
  C3 as stated fails for \<open>N = 2 ^ 31\<close>: \<^verbatim>\<open>static_cast<int32_t>(length)\<close> keeps 32 bits, so with
  capacity to spare the length field written is \<open>00 00 00 80\<close>, the number \<open>- 2 ^ 31\<close>.
\<close>

theorem writeBinaryString_length_2G:
  "fits writer_4G (2147483648 + 4)
   \<and> writeBinaryString debug_LE 12884901888 2147483648 (zero_memory, writer_4G) =
       Inr (memcpy (store zero_memory 4294967296 [0, 0, 0, 128]) 4294967300 12884901888 2147483648,
            \<lparr>buffer_m = 4294967296, position_m = 2147483652, capacity_m = 4294967296\<rparr>)
   \<and> sint (object_value debug_LE [0, 0, 0, 128] :: 32 word) = - 2147483648"
proof -
  have fit: "fits writer_4G (unat (2147483648 :: size_t) + 4)"
    by (simp add: fits_def writer_4G_def)
  have field: "object_bytes debug_LE (2147483648 :: 32 word) = [0, 0, 0, 128]"
    by (simp add: object_bytes_def debug_LE_def sizeof_def word_bytes_numeral)
  have dec: "sint (object_value debug_LE [0, 0, 0, 128] :: 32 word) = - 2147483648"
    by (simp add: object_value_def debug_LE_def)
  have w: "buffer_m writer_4G = 4294967296" "position_m writer_4G = 0"
    by (simp_all add: writer_4G_def)
  show ?thesis
    using fit dec writeBinaryString_fits [OF fit, of debug_LE 12884901888 zero_memory]
    by (simp add: field w writer_4G_def)
qed

section \<open>Frame conditions\<close>

lemma unchanged_outside_refl: "unchanged_outside m m p n"
  by (simp add: unchanged_outside_def)

lemma unchanged_outside_store:
  "length bs \<le> n \<Longrightarrow> unchanged_outside m (store m p bs) p n"
  by (simp add: unchanged_outside_def store_def)

lemma unchanged_outside_memcpy:
  "unchanged_outside m (memcpy m p src n) p (unat n)"
  by (simp add: memcpy_def unchanged_outside_store length_load)

lemma unchanged_outside_memset:
  "unchanged_outside m (memset m p c n) p (unat n)"
  by (simp add: memset_def unchanged_outside_store)

lemma frame_writePrimitive:
  assumes "sizeof v = k"
  shows "frame (writePrimitive cfg v (m, w)) m (buffer_m w + position_m w) k"
  using assms
  by (simp add: writePrimitive_def assureExpand_def Let_def and_then_def in_memory_def assert_that_def frame_def unchanged_outside_refl
      unchanged_outside_store length_object_bytes)

lemma unat_minus_4:
  assumes "4 \<le> unat (d :: addr)"
  shows "unat (d - 4) = unat d - 4"
proof -
  have "(4 :: addr) \<le> d"
    using assms by (simp add: word_le_nat_alt)
  then have "unat (d - 4) = unat d - unat (4 :: addr)"
    by (rule unat_sub)
  then show ?thesis
    by simp
qed

lemma unchanged_outside_binary_string:
  assumes "length field = 4"
  shows "unchanged_outside m (memcpy (store m p field) (p + 4) src n) p (unat n + 4)"
proof -
  have "memcpy (store m p field) (p + 4) src n x = m x" if x: "unat n + 4 \<le> unat (x - p)" for x
  proof -
    have "4 \<le> unat (x - p)"
      using x by simp
    then have sub: "unat (x - p - 4) = unat (x - p) - 4"
      by (rule unat_minus_4)
    have eq: "x - (p + 4) = x - p - 4"
      by simp
    have "unat (x - (p + 4)) = unat (x - p) - 4"
      by (subst eq) (rule sub)
    then have "unat n \<le> unat (x - (p + 4))"
      using x by linarith
    then have "memcpy (store m p field) (p + 4) src n x = store m p field x"
      by (simp add: memcpy_def store_def length_load)
    also have "\<dots> = m x"
      using \<open>4 \<le> unat (x - p)\<close> by (simp add: store_def assms)
    finally show ?thesis .
  qed
  then show ?thesis
    by (simp add: unchanged_outside_def)
qed

lemma frame_writeBinaryString:
  "frame (writeBinaryString cfg src n (m, w)) m (buffer_m w + position_m w) (unat n + 4)"
  by (simp add: writeBinaryString_def assureExpand_def Let_def and_then_def in_memory_def assert_that_def
      frame_def unchanged_outside_refl sizeof_def unchanged_outside_binary_string length_object_bytes)

lemma frame_writeChar: "frame (writeChar cfg c (m, w)) m (buffer_m w + position_m w) 1"
  by (simp add: writeChar_def  frame_writePrimitive sizeof_def)

lemma frame_writeByte: "frame (writeByte cfg b (m, w)) m (buffer_m w + position_m w) 1"
  by (simp add: writeByte_def  frame_writePrimitive sizeof_def)

lemma frame_writeShort: "frame (writeShort cfg s (m, w)) m (buffer_m w + position_m w) 2"
  by (simp add: writeShort_def  frame_writePrimitive sizeof_def)

lemma frame_writeInt: "frame (writeInt cfg i (m, w)) m (buffer_m w + position_m w) 4"
  by (simp add: writeInt_def  frame_writePrimitive sizeof_def)

lemma frame_writeLong: "frame (writeLong cfg l (m, w)) m (buffer_m w + position_m w) 8"
  by (simp add: writeLong_def  frame_writePrimitive sizeof_def)

lemma frame_writeBool: "frame (writeBool cfg t (m, w)) m (buffer_m w + position_m w) 1"
  by (simp add: writeBool_def writeByte_def frame_writePrimitive sizeof_def)

lemma frame_writeFloat: "frame (writeFloat cfg f (m, w)) m (buffer_m w + position_m w) 4"
  by (simp add: writeFloat_def  frame_writePrimitive sizeof_def)

lemma frame_writeDouble: "frame (writeDouble cfg d (m, w)) m (buffer_m w + position_m w) 8"
  by (simp add: writeDouble_def  frame_writePrimitive sizeof_def)

lemma frame_writeEnumInSingleByte:
  "frame (writeEnumInSingleByte cfg e (m, w)) m (buffer_m w + position_m w) 1"
  using frame_writeByte [of cfg "ucast e" m w]
  by (simp add: writeEnumInSingleByte_def assert_that_def and_then_def frame_def
      unchanged_outside_refl)

lemma frame_writeBytes:
  "frame (writeBytes cfg src n (m, w)) m (buffer_m w + position_m w) (unat n)"
  by (simp add: writeBytes_def assureExpand_def Let_def and_then_def in_memory_def assert_that_def frame_def unchanged_outside_refl
      unchanged_outside_memcpy)

lemma frame_writeZeros:
  "frame (writeZeros cfg n (m, w)) m (buffer_m w + position_m w) (unat n)"
  by (simp add: writeZeros_def assureExpand_def Let_def and_then_def in_memory_def assert_that_def frame_def unchanged_outside_refl
      unchanged_outside_memset)

lemma frame_readBytes: "frame (readBytes cfg dst n (m, r)) m dst (unat n)"
  by (simp add: readBytes_def getRawPointer_def Let_def and_then_def in_memory_def assert_that_def frame_def unchanged_outside_refl
      unchanged_outside_memcpy)

lemma preserves_readBytes:
  assumes "disjoint_ranges dst (unat n) buf k"
  shows "preserves (readBytes cfg dst n (m, r)) m buf k"
proof -
  have "disjoint_ranges dst (length (load m (current_m r) (unat n))) buf k"
    using assms by (simp add: length_load)
  then have "load (memcpy m dst (current_m r) n) buf k = load m buf k"
    unfolding memcpy_def by (rule load_store_disjoint)
  then show ?thesis
    by (simp add: readBytes_def getRawPointer_def Let_def and_then_def in_memory_def assert_that_def
        preserves_def)
qed

lemma load_8:
  "load m p 8 = [m p, m (p + 1), m (p + 2), m (p + 3), m (p + 4), m (p + 5), m (p + 6), m (p + 7)]"
proof -
  have "[0..<8] = [0, 1, 2, 3, 4, 5, 6, 7 :: nat]"
    by code_simp
  then show ?thesis
    by (simp add: load_def)
qed

text \<open>
  C10, as the code has it. A Writer operation, whether it returns or aborts, has changed no
  byte outside the \<open>w\<close> bytes at its cursor: memory at every address outside
  \<open>[buffer + p, buffer + p + w)\<close> is what it was. \<^verbatim>\<open>reserveBytes\<close>, \<^verbatim>\<open>position\<close> and the Reader's
  decoding operations have no memory to change. The one Reader operation that writes,
  \<^verbatim>\<open>readBytes\<close>, writes the \<open>n\<close> bytes at the caller's destination and nothing else, so the
  Reader's buffer reads as before whenever the destination range is apart from it.
\<close>

theorem writes_stay_in_range:
  "frame (writeChar cfg c (m, w)) m (buffer_m w + position_m w) 1
    \<and> frame (writeByte cfg b (m, w)) m (buffer_m w + position_m w) 1
    \<and> frame (writeShort cfg s (m, w)) m (buffer_m w + position_m w) 2
    \<and> frame (writeInt cfg i (m, w)) m (buffer_m w + position_m w) 4
    \<and> frame (writeLong cfg l (m, w)) m (buffer_m w + position_m w) 8
    \<and> frame (writeBool cfg t (m, w)) m (buffer_m w + position_m w) 1
    \<and> frame (writeFloat cfg f (m, w)) m (buffer_m w + position_m w) 4
    \<and> frame (writeDouble cfg d (m, w)) m (buffer_m w + position_m w) 8
    \<and> frame (writeEnumInSingleByte cfg e (m, w)) m (buffer_m w + position_m w) 1
    \<and> frame (writeBinaryString cfg src n (m, w)) m (buffer_m w + position_m w) (unat n + 4)
    \<and> frame (writeBytes cfg src n (m, w)) m (buffer_m w + position_m w) (unat n)
    \<and> frame (writeZeros cfg n (m, w)) m (buffer_m w + position_m w) (unat n)
    \<and> frame (readBytes cfg dst n (m, r)) m dst (unat n)
    \<and> (disjoint_ranges dst (unat n) buf k \<longrightarrow> preserves (readBytes cfg dst n (m, r)) m buf k)"
  by (intro conjI impI)
    (rule preserves_readBytes, assumption |
     rule frame_writeChar frame_writeByte frame_writeShort frame_writeInt frame_writeLong
      frame_writeBool frame_writeFloat frame_writeDouble frame_writeEnumInSingleByte
      frame_writeBinaryString frame_writeBytes frame_writeZeros frame_readBytes)+

theorem writes_stay_in_range_witness:
  "writeInt debug_LE 42 (zero_memory, writer8) =
     Inr (store zero_memory 4096 [42, 0, 0, 0], \<lparr>buffer_m = 4096, position_m = 4, capacity_m = 8\<rparr>)
   \<and> 4 \<le> unat (4100 - 4096 :: addr)
   \<and> store zero_memory 4096 [42, 0, 0, 0] 4100 = zero_memory 4100
   \<and> 4 \<le> unat (4095 - 4096 :: addr)
   \<and> store zero_memory 4096 [42, 0, 0, 0] 4095 = zero_memory 4095
   \<and> disjoint_ranges 8192 (unat (8 :: size_t)) 4096 8
   \<and> preserves (readBytes debug_LE 8192 8 (text_memory, ExportSerializeInput_new 4096 8))
        text_memory 4096 8"
proof -
  have disj: "disjoint_ranges 8192 (unat (8 :: size_t)) 4096 8"
    by (simp add: disjoint_ranges_def)
  have rd: "preserves (readBytes debug_LE 8192 8 (text_memory, ExportSerializeInput_new 4096 8))
      text_memory 4096 8"
    using disj
      writes_stay_in_range [where cfg = debug_LE and m = text_memory and dst = 8192 and n = 8
        and r = "ExportSerializeInput_new 4096 8" and buf = 4096 and k = 8]
    by simp
  have bytes: "object_bytes debug_LE (42 :: 32 word) = [42, 0, 0, 0]"
    by (simp add: object_bytes_def debug_LE_def sizeof_def word_bytes_numeral)
  have "fits writer8 4"
    by (simp add: fits_def writer8_def)
  then have wr: "writeInt debug_LE 42 (zero_memory, writer8) =
      Inr (store zero_memory 4096 [42, 0, 0, 0], \<lparr>buffer_m = 4096, position_m = 4, capacity_m = 8\<rparr>)"
    by (simp add: writeInt_fits bytes writer8_def)
  have "frame (writeInt debug_LE 42 (zero_memory, writer8)) zero_memory
      (buffer_m writer8 + position_m writer8) 4"
    using writes_stay_in_range [of debug_LE _ zero_memory writer8 _ _ 42] by simp
  then have out: "unchanged_outside zero_memory (store zero_memory 4096 [42, 0, 0, 0]) 4096 4"
    using wr by (simp add: frame_def writer8_def)
  have a: "4 \<le> unat (4100 - 4096 :: addr)" and b: "4 \<le> unat (4095 - 4096 :: addr)"
    by (simp_all add: unsigned_minus_1_eq_mask mask_eq_exp_minus_1)
  from out a have "store zero_memory 4096 [42, 0, 0, 0] 4100 = zero_memory 4100"
    unfolding unchanged_outside_def by blast
  moreover from out b have "store zero_memory 4096 [42, 0, 0, 0] 4095 = zero_memory 4095"
    unfolding unchanged_outside_def by blast
  ultimately show ?thesis
    using wr a b disj rd by simp
qed

text \<open>
  C10 as stated fails for \<^verbatim>\<open>readBytes\<close> with a destination inside the Reader's own buffer: over
  the 8 bytes at 4096, copying the first 4 bytes to 4100 (source and destination apart, as
  \<^verbatim>\<open>memcpy\<close> requires) returns with bytes 4 to 7 of the buffer overwritten.
\<close>

theorem readBytes_into_own_buffer:
  "load text_memory 4096 8 = [4, 0, 0, 0, 116, 101, 120, 116]
   \<and> disjoint_ranges 4100 4 4096 4
   \<and> readBytes debug_LE 4100 4 (text_memory, ExportSerializeInput_new 4096 8) =
       Inr (memcpy text_memory 4100 4096 4, \<lparr>current_m = 4100, end_m = 4104\<rparr>)
   \<and> load (memcpy text_memory 4100 4096 4) 4096 8 = [4, 0, 0, 0, 4, 0, 0, 0]"
proof -
  have before: "load text_memory 4096 8 = [4, 0, 0, 0, 116, 101, 120, 116]"
    by (simp add: load_8 text_memory_def store_def)
  have apart: "disjoint_ranges 4100 4 4096 4"
    by (simp add: disjoint_ranges_def)
  have "room (ExportSerializeInput_new 4096 8) (unat (4 :: size_t))"
    by (simp add: room_def ExportSerializeInput_new_def)
  then have rd: "readBytes debug_LE 4100 4 (text_memory, ExportSerializeInput_new 4096 8) =
      Inr (memcpy text_memory 4100 4096 4, \<lparr>current_m = 4100, end_m = 4104\<rparr>)"
    by (simp add: readBytes_room ExportSerializeInput_new_def)
  have src: "load text_memory 4096 4 = [4, 0, 0, 0]"
    by (simp add: load_4 text_memory_def store_def)
  have mc: "memcpy text_memory 4100 4096 4 = store text_memory 4100 [4, 0, 0, 0]"
    by (simp add: memcpy_def src)
  have after: "load (memcpy text_memory 4100 4096 4) 4096 8 = [4, 0, 0, 0, 4, 0, 0, 0]"
    unfolding mc
    by (simp add: load_8 store_def text_memory_def unsigned_minus_1_eq_mask mask_eq_exp_minus_1)
  show ?thesis
    using before apart rd after by simp
qed

end
